theory Spec2Isabelle
  imports Complex_Main "HOL-Library.Word"
begin

text \<open>
  A shallow embedding of the simulation core of the Augmented Reality Sandbox: the grid
  read-back request channel of Sandbox.h, and from Sandbox.cpp the raw depth frame
  dispatcher, the simulation update of \<open>Sandbox::display\<close> and the control pipe of
  \<open>Sandbox::frame\<close>. State is passed explicitly, a display cycle yields the list of its
  events, and the use of a null or indeterminate pointer is a result of its own. The
  definitions come first, then the lemmas about them, then the properties of the
  specification.
\<close>

section \<open>Grid read-back requests (Sandbox.h, struct GridRequest)\<close>

text \<open>
  Pointers are addresses, with \<open>0\<close> the null pointer. A \<open>Request\<close> holds the three
  destination buffers, the callback function pointer and its data pointer.
  \<open>Threads::Mutex::Lock\<close> makes each method of \<open>GridRequest\<close> one atomic step, so
  each method is a function from the structure to a result and the new structure, and
  concurrent callers are callers in one of the possible orders.
\<close>

type_synonym pointer = nat

record Request =
  bathymetryBuffer :: pointer
  waterLevelBuffer :: pointer
  snowHeightBuffer :: pointer
  callback :: pointer
  callbackData :: pointer

definition inactiveRequest :: Request where
  "inactiveRequest =
     \<lparr>bathymetryBuffer = 0, waterLevelBuffer = 0, snowHeightBuffer = 0,
      callback = 0, callbackData = 0\<rparr>"

definition isActive :: "Request \<Rightarrow> bool" where
  "isActive r = (callback r \<noteq> 0)"

record GridRequest =
  currentRequest :: Request

definition newGridRequest :: GridRequest where
  "newGridRequest = \<lparr>currentRequest = inactiveRequest\<rparr>"

definition requestGrids ::
  "pointer \<Rightarrow> pointer \<Rightarrow> pointer \<Rightarrow> pointer \<Rightarrow> pointer \<Rightarrow> GridRequest \<Rightarrow> bool \<times> GridRequest" where
  "requestGrids newBathymetryBuffer newWaterLevelBuffer newSnowHeightBuffer newCallback
       newCallbackData g =
     (if callback (currentRequest g) = 0
      then (True,
            g\<lparr>currentRequest :=
                 \<lparr>bathymetryBuffer = newBathymetryBuffer,
                  waterLevelBuffer = newWaterLevelBuffer,
                  snowHeightBuffer = newSnowHeightBuffer,
                  callback = newCallback,
                  callbackData = newCallbackData\<rparr>\<rparr>)
      else (False, g))"

definition getRequest :: "GridRequest \<Rightarrow> Request \<times> GridRequest" where
  "getRequest g =
     (currentRequest g, g\<lparr>currentRequest := (currentRequest g)\<lparr>callback := 0\<rparr>\<rparr>)"


section \<open>Simulation state (Sandbox.h, Sandbox.cpp)\<close>

text \<open>
  A \<open>GLfloat\<close> or \<open>double\<close> quantity is the real number it denotes. The roundings of the
  platform are parameters: \<open>toGLfloat\<close> and \<open>toDouble\<close> give the \<open>GLfloat\<close> and the
  \<open>double\<close> that a real result is rounded to. They are applied where a comparison or a
  running difference depends on the rounded value (the time budget of a display cycle,
  its threshold, and the test of the \<open>contourLineSpacing\<close> command) and where a command
  converts the value it has clamped or parsed (\<open>snowLine\<close>, \<open>snowMelt\<close>, \<open>rainStrength\<close>).
  The attenuation factor \<open>GLfloat(1.0-x)\<close> is kept as the number \<open>1 - x\<close>, the value in
  the setter's own type. A grid (texture) is the list of its cell values, a raw depth
  frame the list of its samples.
\<close>

record Rounding =
  toGLfloat :: "real \<Rightarrow> real"
  toDouble :: "real \<Rightarrow> real"

type_synonym grid = "real list"
type_synonym FrameBuffer = "real list"

text \<open>
  One OpenGL context: the time stamp of \<open>Sandbox::DataItem\<close> together with the grids the
  water table keeps in that context.
\<close>

record GLContextData =
  waterTableTime :: real
  bathymetryTexture :: grid
  quantityTexture :: grid
  snowTexture :: grid

definition newDataItem :: "grid \<Rightarrow> grid \<Rightarrow> grid \<Rightarrow> GLContextData" where
  "newDataItem b q s =
     \<lparr>waterTableTime = 0, bathymetryTexture = b, quantityTexture = q, snowTexture = s\<rparr>"

datatype Mode = Traditional | Engineering

text \<open>
  Modelled from the spec: class \<open>WaterTable2\<close> (WaterTable2.h and WaterTable2.cpp are not
  among the sources; Sandbox.cpp only calls it). Its scalar simulation parameters are
  fields, each setter stores its argument, and the registered render functions (the
  Contribution Registry) are a list of functions on the context's grids.
\<close>

record WaterTable2 =
  mode :: Mode
  maxStepSize :: real
  minStepSize :: real
  attenuation :: real
  snowLine :: real
  snowMelt :: real
  waterDeposit :: real
  renderFunctions :: "(GLContextData \<Rightarrow> GLContextData) list"

definition setMode :: "Mode \<Rightarrow> WaterTable2 \<Rightarrow> WaterTable2" where
  "setMode m wt = wt\<lparr>mode := m\<rparr>"

definition setMaxStepSize :: "real \<Rightarrow> WaterTable2 \<Rightarrow> WaterTable2" where
  "setMaxStepSize s wt = wt\<lparr>maxStepSize := s\<rparr>"

definition forceMinStepSize :: "real \<Rightarrow> WaterTable2 \<Rightarrow> WaterTable2" where
  "forceMinStepSize s wt = wt\<lparr>minStepSize := s\<rparr>"

definition setAttenuation :: "real \<Rightarrow> WaterTable2 \<Rightarrow> WaterTable2" where
  "setAttenuation a wt = wt\<lparr>attenuation := a\<rparr>"

definition setSnowLine :: "real \<Rightarrow> WaterTable2 \<Rightarrow> WaterTable2" where
  "setSnowLine v wt = wt\<lparr>snowLine := v\<rparr>"

definition setSnowMelt :: "real \<Rightarrow> WaterTable2 \<Rightarrow> WaterTable2" where
  "setSnowMelt v wt = wt\<lparr>snowMelt := v\<rparr>"

definition setWaterDeposit :: "real \<Rightarrow> WaterTable2 \<Rightarrow> WaterTable2" where
  "setWaterDeposit v wt = wt\<lparr>waterDeposit := v\<rparr>"

text \<open>
  The GPU passes of the water table are parameters of the model: the bathymetry update
  from the current depth image, the step size that the stability constraint allows for
  the current grids, and the integration of the grids over a step of a given size. With
  them comes the arithmetic in which \<open>display\<close> keeps its time budget.
\<close>

record Kernels =
  arithmetic :: Rounding
  updateBathymetry :: "GLContextData \<Rightarrow> GLContextData"
  stabilityStepSize :: "WaterTable2 \<Rightarrow> GLContextData \<Rightarrow> real"
  integrate :: "real \<Rightarrow> WaterTable2 \<Rightarrow> GLContextData \<Rightarrow> GLContextData"

text \<open>What one display cycle does to its collaborators, in order.\<close>

datatype Event =
    EvGetRequest
  | EvUpdateBathymetry
  | EvReadBathymetryTexture pointer grid
  | EvUpdatePropertyGrid
  | EvRenderFunction nat
  | EvSimulationStep real
  | EvReadQuantityTexture pointer grid
  | EvReadSnowTexture pointer grid
  | EvComplete pointer pointer pointer pointer pointer

text \<open>
  Modelled from the spec: \<open>WaterTable2::runSimulationStep\<close> (not among the sources).
  Every registered render function is invoked once, the step size is the one the
  stability constraint allows, a zero or negative size is forced to the configured
  minimum step size, the size is kept at or above that minimum, and it is clamped to the
  maximum step size, which the caller has set to the remaining budget. The result is
  the executed step size, the integrated grids and the events of the step.
\<close>

definition runSimulationStep ::
  "Kernels \<Rightarrow> WaterTable2 \<Rightarrow> GLContextData \<Rightarrow> real \<times> GLContextData \<times> Event list" where
  "runSimulationStep K wt cd =
     (let cd1 = fold (\<lambda>f c. f c) (renderFunctions wt) cd;
          s0 = stabilityStepSize K wt cd1;
          s1 = (if s0 \<le> 0 then minStepSize wt else max s0 (minStepSize wt));
          stepSize = min s1 (maxStepSize wt)
      in (stepSize, integrate K stepSize wt cd1,
          map EvRenderFunction [0..<length (renderFunctions wt)] @ [EvSimulationStep stepSize]))"

text \<open>
  A slider of the water control dialog (GLMotif's \<open>TextFieldSlider\<close>): \<open>setValue\<close> clamps
  the new value to the slider's value range and calls no callback.
\<close>

record TextFieldSlider =
  valueMin :: real
  valueMax :: real
  sliderValue :: real

definition setValue :: "real \<Rightarrow> TextFieldSlider \<Rightarrow> TextFieldSlider" where
  "setValue v s = s\<lparr>sliderValue := max (valueMin s) (min (valueMax s) v)\<rparr>"

definition getValue :: "TextFieldSlider \<Rightarrow> real" where
  "getValue s = sliderValue s"

text \<open>
  Modelled from the spec: class \<open>PropertyGridCreator\<close> (not among the sources): the two
  scalars that are applied across the property grid, each stored by its setter.
\<close>

record PropertyGridCreator =
  roughness :: real
  absorption :: real

definition setRoughness :: "real \<Rightarrow> PropertyGridCreator \<Rightarrow> PropertyGridCreator" where
  "setRoughness v p = p\<lparr>roughness := v\<rparr>"

definition setAbsorption :: "real \<Rightarrow> PropertyGridCreator \<Rightarrow> PropertyGridCreator" where
  "setAbsorption v p = p\<lparr>absorption := v\<rparr>"

text \<open>
  A pointer member that the constructor does not initialise: the initialiser list of
  \<open>Sandbox::Sandbox\<close> sets \<open>snowLineSlider\<close>, \<open>waterSpeedSlider\<close>, \<open>waterMaxStepsSlider\<close>
  and \<open>waterAttenuationSlider\<close> to null, but omits \<open>snowMeltSlider\<close>,
  \<open>waterRoughnessSlider\<close>, \<open>waterAbsorptionSlider\<close> and \<open>waterModeRadioBox\<close>. Those four
  are assigned only in \<open>createWaterControlDialog\<close>, which the constructor calls when
  there is a water table; until then their value is indeterminate.
\<close>

datatype 'a widgetPointer = Indeterminate | NullPointer | PointsTo 'a

text \<open>
  The members of \<open>Sandbox\<close> that the dispatcher, the control pipe and the simulation
  update use. An object behind an initialised pointer is \<open>Some\<close> state, a null pointer
  \<open>None\<close>. The frame filter and the hand extractor are the lists of raw frames they have
  received. \<open>cerr\<close> collects the messages written to the error stream, \<open>rendererCalls\<close>
  the commands passed on to the surface renderers and colour maps.
\<close>

record Sandbox =
  frameFilter :: "FrameBuffer list option"
  pauseUpdates :: bool
  handExtractor :: "FrameBuffer list option"
  waterTable :: "WaterTable2 option"
  waterSpeed :: real
  waterMaxSteps :: "32 word"
  rainStrength :: real
  propertyGridCreator :: "PropertyGridCreator option"
  gridRequest :: GridRequest
  snowLineSlider :: "TextFieldSlider option"
  snowMeltSlider :: "TextFieldSlider widgetPointer"
  waterSpeedSlider :: "TextFieldSlider option"
  waterMaxStepsSlider :: "TextFieldSlider option"
  waterAttenuationSlider :: "TextFieldSlider option"
  waterRoughnessSlider :: "TextFieldSlider widgetPointer"
  waterAbsorptionSlider :: "TextFieldSlider widgetPointer"
  waterModeRadioBox :: "nat widgetPointer"
  cerr :: "string list"
  rendererCalls :: "string list list"

section \<open>Sandbox::rawDepthFrameDispatcher\<close>

text \<open>
  Modelled from the spec: \<open>FrameFilter::receiveRawFrame\<close> and
  \<open>HandExtractor::receiveRawFrame\<close> (neither class is among the sources): the receiver
  records the frame it is given.
\<close>

definition receiveRawFrame :: "FrameBuffer \<Rightarrow> FrameBuffer list \<Rightarrow> FrameBuffer list" where
  "receiveRawFrame frameBuffer received = received @ [frameBuffer]"

definition rawDepthFrameDispatcher :: "FrameBuffer \<Rightarrow> Sandbox \<Rightarrow> Sandbox" where
  "rawDepthFrameDispatcher frameBuffer sb =
     (let sb1 = (case frameFilter sb of
                   Some ff \<Rightarrow>
                     if \<not> pauseUpdates sb
                     then sb\<lparr>frameFilter := Some (receiveRawFrame frameBuffer ff)\<rparr>
                     else sb
                 | None \<Rightarrow> sb)
      in case handExtractor sb1 of
           Some he \<Rightarrow> sb1\<lparr>handExtractor := Some (receiveRawFrame frameBuffer he)\<rparr>
         | None \<Rightarrow> sb1)"

section \<open>Sandbox::display: the simulation update\<close>

text \<open>
  The threshold \<open>1.0e-8f\<close>, and the time budget \<open>GLfloat(Vrui::getFrameTime()*waterSpeed)\<close>
  of a cycle: the product of two \<open>double\<close>s, converted to \<open>GLfloat\<close>.
\<close>

definition epsilon :: "Kernels \<Rightarrow> real" where
  "epsilon K = toGLfloat (arithmetic K) (1 / 100000000)"

definition budget :: "Kernels \<Rightarrow> real \<Rightarrow> real \<Rightarrow> real" where
  "budget K frameTime speed =
     toGLfloat (arithmetic K) (toDouble (arithmetic K) (frameTime * speed))"

text \<open>
  The stepping loop: while steps and budget remain, the maximum step size is set to the
  remaining budget, one simulation step is run, and the size of the executed step is
  subtracted from the budget, in \<open>GLfloat\<close>. The result is the number of steps, the
  remaining budget, the water table, the context and the events.
\<close>

function stepLoop ::
  "Kernels \<Rightarrow> 32 word \<Rightarrow> 32 word \<Rightarrow> real \<Rightarrow> WaterTable2 \<Rightarrow> GLContextData \<Rightarrow> Event list
     \<Rightarrow> 32 word \<times> real \<times> WaterTable2 \<times> GLContextData \<times> Event list" where
  "stepLoop K maxSteps numSteps totalTimeStep wt cd evs =
     (if numSteps < maxSteps \<and> totalTimeStep > epsilon K
      then (case runSimulationStep K (setMaxStepSize totalTimeStep wt) cd of
              (timeStep, cd1, evs1) \<Rightarrow>
                stepLoop K maxSteps (numSteps + 1)
                  (toGLfloat (arithmetic K) (totalTimeStep - timeStep))
                  (setMaxStepSize totalTimeStep wt) cd1 (evs @ evs1))
      else (numSteps, totalTimeStep, wt, cd, evs))"
  by pat_completeness auto

lemma unat_succ_below:
  fixes n m :: "32 word"
  assumes "n < m"
  shows "unat (n + 1) = Suc (unat n)"
proof -
  have "m \<le> - 1" by (rule word_n1_ge)
  with assms have "n \<noteq> - 1" by auto
  then have "1 + n \<noteq> 0" by (simp add: add_eq_0_iff)
  then have "unat (1 + n) = Suc (unat n)" by (rule unatSuc)
  then show ?thesis by (simp add: add.commute)
qed

termination stepLoop
  by (relation "measure (\<lambda>(K, maxSteps, numSteps, t, wt, cd, evs). unat maxSteps - unat numSteps)")
     (auto simp: unat_succ_below word_less_nat_alt)

text \<open>
  The part of an updating display cycle before the stepping loop: the pending request is
  retrieved, the bathymetry grid is updated and, for an active request with a bathymetry
  buffer, read back, and the property grid is updated.
\<close>

definition beforeLoop :: "Kernels \<Rightarrow> Request \<Rightarrow> GLContextData \<Rightarrow> Event list" where
  "beforeLoop K request cd =
     [EvGetRequest, EvUpdateBathymetry]
     @ (if isActive request \<and> bathymetryBuffer request \<noteq> 0
        then [EvReadBathymetryTexture (bathymetryBuffer request)
                (bathymetryTexture (updateBathymetry K cd))]
        else [])
     @ [EvUpdatePropertyGrid]"

text \<open>
  The part after the stepping loop: for an active request, the water level and snow
  height grids are read back into the buffers that are not null, and the request is
  completed.
\<close>

definition afterLoop :: "Request \<Rightarrow> GLContextData \<Rightarrow> Event list" where
  "afterLoop request cd =
     (if isActive request \<and> waterLevelBuffer request \<noteq> 0
      then [EvReadQuantityTexture (waterLevelBuffer request) (quantityTexture cd)]
      else [])
     @ (if isActive request \<and> snowHeightBuffer request \<noteq> 0
        then [EvReadSnowTexture (snowHeightBuffer request) (snowTexture cd)]
        else [])
     @ (if isActive request
        then [EvComplete (callback request) (bathymetryBuffer request)
                (waterLevelBuffer request) (snowHeightBuffer request) (callbackData request)]
        else [])"

text \<open>
  The simulation update of \<open>Sandbox::display\<close> at application time \<open>applicationTime\<close>, with
  \<open>frameTime\<close> the time since the previous frame. The result is the new sandbox, the new
  context and the events of the cycle.
\<close>

definition display ::
  "Kernels \<Rightarrow> real \<Rightarrow> real \<Rightarrow> Sandbox \<Rightarrow> GLContextData \<Rightarrow> Sandbox \<times> GLContextData \<times> Event list" where
  "display K applicationTime frameTime sb cd =
     (case waterTable sb of
        None \<Rightarrow> (sb, cd, [])
      | Some wt \<Rightarrow>
          if waterTableTime cd \<noteq> applicationTime
          then
            (case getRequest (gridRequest sb) of
               (request, g1) \<Rightarrow>
                 (case stepLoop K (waterMaxSteps sb) 0 (budget K frameTime (waterSpeed sb)) wt
                         (updateBathymetry K cd) (beforeLoop K request cd) of
                    (numSteps, totalTimeStep, wt2, cd2, evs) \<Rightarrow>
                      (sb\<lparr>waterTable := Some wt2, gridRequest := g1\<rparr>,
                       cd2\<lparr>waterTableTime := applicationTime\<rparr>,
                       evs @ afterLoop request cd2)))
          else (sb, cd, []))"

text \<open>The sizes of the simulation steps a trace executes, in order.\<close>

fun executedSteps :: "Event list \<Rightarrow> real list" where
  "executedSteps [] = []"
| "executedSteps (EvSimulationStep s # es) = s # executedSteps es"
| "executedSteps (e # es) = executedSteps es"

text \<open>Events that only a simulation step produces.\<close>

fun isStepEvent :: "Event \<Rightarrow> bool" where
  "isStepEvent (EvRenderFunction i) = True"
| "isStepEvent (EvSimulationStep s) = True"
| "isStepEvent e = False"

text \<open>
  The executed steps of a cycle, read against its budget: every step was taken while
  the remaining budget exceeded the threshold, the remaining budget after a step being
  the \<open>GLfloat\<close> difference of the budget before it and the size of the step.
\<close>

fun stepsUnderBudget :: "Kernels \<Rightarrow> real \<Rightarrow> real list \<Rightarrow> bool" where
  "stepsUnderBudget K remaining [] = True"
| "stepsUnderBudget K remaining (s # ss) =
     (epsilon K < remaining
      \<and> stepsUnderBudget K (toGLfloat (arithmetic K) (remaining - s)) ss)"


section \<open>The control pipe (Sandbox.cpp: tokenizeLine, isToken, Sandbox::frame)\<close>

text \<open>
  A C string is the list of its characters before the terminating NUL. \<open>isspace\<close> and
  \<open>tolower\<close> are those of the C locale; \<open>strcasecmp\<close> compares the lower-cased strings.
\<close>

definition isspace :: "char \<Rightarrow> bool" where
  "isspace c = (c = CHR '' '' \<or> c = CHR 0x09 \<or> c = CHR 0x0A \<or> c = CHR 0x0B
                \<or> c = CHR 0x0C \<or> c = CHR 0x0D)"

definition tolower :: "char \<Rightarrow> char" where
  "tolower c =
     (if 65 \<le> (of_char c :: nat) \<and> (of_char c :: nat) \<le> 90
      then (case c of Char b0 b1 b2 b3 b4 b5 b6 b7 \<Rightarrow> Char b0 b1 b2 b3 b4 True b6 b7)
      else c)"

definition isToken :: "string \<Rightarrow> string \<Rightarrow> bool" where
  "isToken token pattern = (map tolower token = map tolower pattern)"

text \<open>The loop \<open>while(*bPtr!='\0'&&*bPtr!='\n'&&isspace(*bPtr)) ++bPtr;\<close>\<close>

fun skipSpace :: "string \<Rightarrow> string" where
  "skipSpace [] = []"
| "skipSpace (c # cs) = (if c \<noteq> CHR 0x0A \<and> isspace c then skipSpace cs else c # cs)"

lemma length_skipSpace: "length (skipSpace cs) \<le> length cs"
  by (induction cs) auto

lemma length_dropWhile_le: "length (dropWhile P cs) \<le> length cs"
  by (induction cs) auto

lemma token_consumed:
  "c \<noteq> CHR 0x0A \<Longrightarrow>
     length (skipSpace (dropWhile (\<lambda>x. \<not> isspace x) (c # cs))) < Suc (length cs)"
proof (cases "isspace c")
  case True
  assume "c \<noteq> CHR 0x0A"
  with True have "skipSpace (dropWhile (\<lambda>x. \<not> isspace x) (c # cs)) = skipSpace cs"
    by simp
  then show ?thesis
    using length_skipSpace [of cs] by simp
next
  case False
  then have "skipSpace (dropWhile (\<lambda>x. \<not> isspace x) (c # cs))
               = skipSpace (dropWhile (\<lambda>x. \<not> isspace x) cs)"
    by simp
  then show ?thesis
    using length_skipSpace [of "dropWhile (\<lambda>x. \<not> isspace x) cs"]
      length_dropWhile_le [of "\<lambda>x. \<not> isspace x" cs]
    by simp
qed

text \<open>
  The token loop of \<open>tokenizeLine\<close>: until a newline or the end of the string, the
  characters up to the next white space are one token, and the white space after it,
  except a newline, is skipped. The result is the tokens and the unread rest.
\<close>

function extractTokens :: "string \<Rightarrow> string list \<times> string" where
  "extractTokens [] = ([], [])"
| "extractTokens (c # cs) =
     (if c = CHR 0x0A then ([], c # cs)
      else (case extractTokens (skipSpace (dropWhile (\<lambda>x. \<not> isspace x) (c # cs))) of
              (tokens, rest) \<Rightarrow> (takeWhile (\<lambda>x. \<not> isspace x) (c # cs) # tokens, rest)))"
  by pat_completeness auto
termination
  by (relation "measure length") (auto simp: token_consumed simp del: skipSpace.simps dropWhile.simps)

definition tokenizeLine :: "string \<Rightarrow> string list \<times> string" where
  "tokenizeLine buffer =
     (case extractTokens (skipSpace buffer) of
        (tokens, bPtr) \<Rightarrow>
          (tokens, case bPtr of [] \<Rightarrow> [] | c # cs \<Rightarrow> if c = CHR 0x0A then cs else c # cs))"

text \<open>
  The C and C++ libraries and the file system are parameters: \<open>atof\<close> and \<open>atoi\<close>, the
  rounding of a \<open>double\<close> to \<open>GLfloat\<close>, the text that the stream prints for a
  \<open>GLfloat\<close>, and the outcome of \<open>ElevationColorMap::load\<close> for a file name: \<open>None\<close>
  when the height colour map is loaded, or the text of the \<open>std::runtime_error\<close> it throws,
  which the \<open>colorMap\<close> command catches and prints.
\<close>

record Library =
  atof :: "string \<Rightarrow> real"
  atoi :: "string \<Rightarrow> int"
  rounding :: Rounding
  showGLfloat :: "real \<Rightarrow> string"
  loadHeightMap :: "string \<Rightarrow> string option"

definition complain :: "string \<Rightarrow> Sandbox \<Rightarrow> Sandbox" where
  "complain message sb = sb\<lparr>cerr := cerr sb @ [message]\<rparr>"

definition wrongArguments :: "string \<Rightarrow> Sandbox \<Rightarrow> Sandbox option" where
  "wrongArguments name sb =
     Some (complain (''Wrong number of arguments for '' @ name @ '' control pipe command'') sb)"

definition invalidParameter :: "string \<Rightarrow> string \<Rightarrow> Sandbox \<Rightarrow> Sandbox option" where
  "invalidParameter parameter name sb =
     Some (complain (''Invalid parameter '' @ parameter @ '' for '' @ name
                     @ '' control pipe command'') sb)"

text \<open>A command that is passed on to the surface renderers or colour maps of all windows.\<close>

definition toRenderers :: "string list \<Rightarrow> Sandbox \<Rightarrow> Sandbox option" where
  "toRenderers tokens sb = Some (sb\<lparr>rendererCalls := rendererCalls sb @ [tokens]\<rparr>)"

text \<open>
  \<open>waterMode\<close>: the mode is set and the radio box updated when there is a water table.
  The radio box pointer is dereferenced unchecked; \<open>None\<close> is the dereference of a null
  or indeterminate pointer.
\<close>

definition selectWaterMode :: "Mode \<Rightarrow> nat \<Rightarrow> Sandbox \<Rightarrow> Sandbox option" where
  "selectWaterMode m toggle sb =
     (case waterTable sb of
        None \<Rightarrow> Some sb
      | Some wt \<Rightarrow>
          (case waterModeRadioBox sb of
             PointsTo selected \<Rightarrow>
               Some (sb\<lparr>waterTable := Some (setMode m wt),
                         waterModeRadioBox := PointsTo toggle\<rparr>)
           | NullPointer \<Rightarrow> None
           | Indeterminate \<Rightarrow> None))"

text \<open>
  \<open>if(slider!=0) slider->setValue(v)\<close> for one of the sliders that the constructor does
  not initialise: the slider after the statement, or \<open>None\<close> when the pointer is
  indeterminate (the test reads an indeterminate value and the call goes through it).
\<close>

definition setIfPresent ::
  "real \<Rightarrow> TextFieldSlider widgetPointer \<Rightarrow> TextFieldSlider widgetPointer option" where
  "setIfPresent v slider =
     (case slider of
        PointsTo s \<Rightarrow> Some (PointsTo (setValue v s))
      | NullPointer \<Rightarrow> Some NullPointer
      | Indeterminate \<Rightarrow> None)"

text \<open>
  The command chain of \<open>Sandbox::frame\<close> for one non-empty token list. The result is
  the new state, or \<open>None\<close> when the command uses a null or indeterminate pointer
  (undefined behaviour).
\<close>

definition parseCommand :: "Library \<Rightarrow> Sandbox \<Rightarrow> string list \<Rightarrow> Sandbox option" where
  "parseCommand E sb tokens =
     (if isToken (tokens ! 0) ''snowLine'' then
        (if length tokens = 2 then
           (let v0 = atof E (tokens ! 1);
                slider = map_option (setValue v0) (snowLineSlider sb);
                v = (case slider of Some s \<Rightarrow> getValue s | None \<Rightarrow> v0)
            in Some (sb\<lparr>snowLineSlider := slider,
                         waterTable :=
                           map_option (setSnowLine (toGLfloat (rounding E) v)) (waterTable sb)\<rparr>))
         else wrongArguments ''snowLine'' sb)
      else if isToken (tokens ! 0) ''snowMelt'' then
        (if length tokens = 2 then
           (case setIfPresent (atof E (tokens ! 1)) (snowMeltSlider sb) of
              None \<Rightarrow> None
            | Some slider \<Rightarrow>
                (let v = (case slider of PointsTo s \<Rightarrow> getValue s | _ \<Rightarrow> atof E (tokens ! 1))
                 in Some (sb\<lparr>snowMeltSlider := slider,
                              waterTable :=
                                map_option (setSnowMelt (toGLfloat (rounding E) v))
                                  (waterTable sb)\<rparr>)))
         else wrongArguments ''snowMelt'' sb)
      else if isToken (tokens ! 0) ''waterSpeed'' then
        (if length tokens = 2 then
           Some (sb\<lparr>waterSpeed := atof E (tokens ! 1),
                     waterSpeedSlider :=
                       map_option (setValue (atof E (tokens ! 1))) (waterSpeedSlider sb)\<rparr>)
         else wrongArguments ''waterSpeed'' sb)
      else if isToken (tokens ! 0) ''waterMaxSteps'' then
        (if length tokens = 2 then
           Some (sb\<lparr>waterMaxSteps := word_of_int (atoi E (tokens ! 1)),
                     waterMaxStepsSlider :=
                       map_option
                         (setValue (real (unat (word_of_int (atoi E (tokens ! 1)) :: 32 word))))
                         (waterMaxStepsSlider sb)\<rparr>)
         else wrongArguments ''waterMaxSteps'' sb)
      else if isToken (tokens ! 0) ''waterMode'' then
        (if length tokens = 2 then
           (if isToken (tokens ! 1) ''traditional'' then selectWaterMode Traditional 0 sb
            else if isToken (tokens ! 1) ''engineering'' then selectWaterMode Engineering 1 sb
            else Some (complain (''Unknown water mode '' @ tokens ! 1
                                 @ '' in waterMode control pipe command'') sb))
         else wrongArguments ''waterMode'' sb)
      else if isToken (tokens ! 0) ''waterAttenuation'' then
        (if length tokens = 2 then
           Some (sb\<lparr>waterTable :=
                       map_option (setAttenuation (1 - atof E (tokens ! 1))) (waterTable sb),
                     waterAttenuationSlider :=
                       map_option (setValue (atof E (tokens ! 1))) (waterAttenuationSlider sb)\<rparr>)
         else wrongArguments ''waterAttenuation'' sb)
      else if isToken (tokens ! 0) ''waterRoughness'' then
        (if length tokens = 2 then
           (case setIfPresent (atof E (tokens ! 1)) (waterRoughnessSlider sb) of
              None \<Rightarrow> None
            | Some slider \<Rightarrow>
                Some (sb\<lparr>propertyGridCreator :=
                            map_option (setRoughness (atof E (tokens ! 1)))
                              (propertyGridCreator sb),
                          waterRoughnessSlider := slider\<rparr>))
         else wrongArguments ''waterRoughness'' sb)
      else if isToken (tokens ! 0) ''rainStrength'' then
        (if length tokens = 2
         then Some (sb\<lparr>rainStrength := toGLfloat (rounding E) (atof E (tokens ! 1))\<rparr>)
         else wrongArguments ''rainStrength'' sb)
      else if isToken (tokens ! 0) ''waterAbsorption'' then
        (if length tokens = 2 then
           (case setIfPresent (atof E (tokens ! 1)) (waterAbsorptionSlider sb) of
              None \<Rightarrow> None
            | Some slider \<Rightarrow>
                Some (sb\<lparr>propertyGridCreator :=
                            map_option (setAbsorption (atof E (tokens ! 1)))
                              (propertyGridCreator sb),
                          waterAbsorptionSlider := slider\<rparr>))
         else wrongArguments ''waterAbsorption'' sb)
      else if isToken (tokens ! 0) ''evaporationRate'' then
        (if length tokens = 2 then
           Some (sb\<lparr>waterTable :=
                       map_option (setWaterDeposit (atof E (tokens ! 1))) (waterTable sb)\<rparr>)
         else wrongArguments ''evaporationRate'' sb)
      else if isToken (tokens ! 0) ''waterColor'' then
        (if length tokens = 4 then toRenderers tokens sb
         else wrongArguments ''waterColor'' sb)
      else if isToken (tokens ! 0) ''waterReflectionColor'' then
        (if length tokens = 4 then toRenderers tokens sb
         else wrongArguments ''waterReflectionColor'' sb)
      else if isToken (tokens ! 0) ''colorCycle'' then
        (if length tokens \<ge> 2 then toRenderers tokens sb
         else wrongArguments ''colorCycle'' sb)
      else if isToken (tokens ! 0) ''colorMap'' then
        (if length tokens = 2 then
           (case loadHeightMap E (tokens ! 1) of
              None \<Rightarrow> toRenderers tokens sb
            | Some what \<Rightarrow>
                Some (complain (''Cannot read height color map '' @ tokens ! 1
                                @ '' due to exception '' @ what) sb))
         else wrongArguments ''colorMap'' sb)
      else if isToken (tokens ! 0) ''heightMapPlane'' then
        (if length tokens = 5 then toRenderers tokens sb
         else wrongArguments ''heightMapPlane'' sb)
      else if isToken (tokens ! 0) ''useContourLines'' then
        (if length tokens = 2 then
           (if isToken (tokens ! 1) ''on'' \<or> isToken (tokens ! 1) ''off''
            then toRenderers tokens sb
            else invalidParameter (tokens ! 1) ''useContourLines'' sb)
         else wrongArguments ''contourLineSpacing'' sb)
      else if isToken (tokens ! 0) ''contourLineSpacing'' then
        (if length tokens = 2 then
           (if toGLfloat (rounding E) (atof E (tokens ! 1)) > 0 then toRenderers tokens sb
            else invalidParameter (showGLfloat E (toGLfloat (rounding E) (atof E (tokens ! 1))))
                   ''contourLineSpacing'' sb)
         else wrongArguments ''contourLineSpacing'' sb)
      else if isToken (tokens ! 0) ''dippingBed'' then
        (if length tokens = 2 \<and> isToken (tokens ! 1) ''off'' then toRenderers tokens sb
         else if length tokens = 5 then toRenderers tokens sb
         else wrongArguments ''dippingBed'' sb)
      else if isToken (tokens ! 0) ''foldedDippingBed'' then
        (if length tokens = 6 then toRenderers tokens sb
         else wrongArguments ''foldedDippingBed'' sb)
      else if isToken (tokens ! 0) ''dippingBedThickness'' then
        (if length tokens = 2 then toRenderers tokens sb
         else wrongArguments ''dippingBedThickness'' sb)
      else if isToken (tokens ! 0) ''loadWarpTexture'' then
        (if length tokens = 2 then toRenderers tokens sb
         else wrongArguments ''loadWarpTexture'' sb)
      else if isToken (tokens ! 0) ''useWarpTexture'' then
        (if length tokens = 2 then
           (if isToken (tokens ! 1) ''on'' \<or> isToken (tokens ! 1) ''off''
            then toRenderers tokens sb
            else invalidParameter (tokens ! 1) ''useWarpTexture'' sb)
         else wrongArguments ''useWarpTexture'' sb)
      else if isToken (tokens ! 0) ''warpIntensity'' then
        (if length tokens = 2 then toRenderers tokens sb
         else wrongArguments ''warpIntensity'' sb)
      else if isToken (tokens ! 0) ''textureScale'' then
        (if length tokens = 2 then toRenderers tokens sb
         else wrongArguments ''textureScale'' sb)
      else if isToken (tokens ! 0) ''gradientThreshold'' then
        (if length tokens = 2 then toRenderers tokens sb
         else wrongArguments ''gradientThreshold'' sb)
      else if isToken (tokens ! 0) ''warpMode'' then
        (if length tokens = 2 then toRenderers tokens sb
         else wrongArguments ''warpMode'' sb)
      else if isToken (tokens ! 0) ''textureBlendMode'' then
        (if length tokens = 2 then toRenderers tokens sb
         else wrongArguments ''textureBlendMode'' sb)
      else if isToken (tokens ! 0) ''textureOpacity'' then
        (if length tokens = 2 then toRenderers tokens sb
         else wrongArguments ''textureOpacity'' sb)
      else Some (complain (''Unrecognized control pipe command '' @ tokens ! 0) sb))"

lemma length_extractTokens: "length (snd (extractTokens cs)) \<le> length cs"
proof (induction cs rule: extractTokens.induct)
  case 1
  show ?case by simp
next
  case (2 c cs)
  show ?case
  proof (cases "c = CHR 0x0A")
    case True
    then show ?thesis by simp
  next
    case False
    have "length (snd (extractTokens (skipSpace (dropWhile (\<lambda>x. \<not> isspace x) (c # cs)))))
            \<le> length (skipSpace (dropWhile (\<lambda>x. \<not> isspace x) (c # cs)))"
      using 2 False by simp
    also have "\<dots> < Suc (length cs)"
      using False by (rule token_consumed)
    finally show ?thesis
      using False by (simp add: case_prod_beta del: skipSpace.simps dropWhile.simps)
  qed
qed

lemma extractTokens_progress:
  "cs \<noteq> [] \<Longrightarrow> hd cs \<noteq> CHR 0x0A \<Longrightarrow> length (snd (extractTokens cs)) < length cs"
proof (cases cs)
  case Nil
  assume "cs \<noteq> []"
  with Nil show ?thesis by simp
next
  case (Cons c cs')
  assume "hd cs \<noteq> CHR 0x0A"
  with Cons have ne: "c \<noteq> CHR 0x0A" by simp
  have "length (snd (extractTokens (skipSpace (dropWhile (\<lambda>x. \<not> isspace x) (c # cs')))))
          \<le> length (skipSpace (dropWhile (\<lambda>x. \<not> isspace x) (c # cs')))"
    by (rule length_extractTokens)
  also have "\<dots> < Suc (length cs')"
    using ne by (rule token_consumed)
  finally show ?thesis
    using Cons ne by (simp add: case_prod_beta del: skipSpace.simps dropWhile.simps)
qed

lemma tokenizeLine_progress:
  assumes "cPtr \<noteq> []"
  shows "length (snd (tokenizeLine cPtr)) < length cPtr"
proof (cases "skipSpace cPtr")
  case Nil
  with assms show ?thesis by (simp add: tokenizeLine_def)
next
  case (Cons c cs)
  show ?thesis
  proof (cases "c = CHR 0x0A")
    case True
    with Cons have "snd (tokenizeLine cPtr) = cs"
      by (simp add: tokenizeLine_def)
    moreover have "length (c # cs) \<le> length cPtr"
      using length_skipSpace [of cPtr] Cons by simp
    ultimately show ?thesis by simp
  next
    case False
    with Cons have "length (snd (extractTokens (skipSpace cPtr))) < length (skipSpace cPtr)"
      using extractTokens_progress [of "skipSpace cPtr"] by simp
    moreover have "length (snd (tokenizeLine cPtr)) \<le> length (snd (extractTokens (skipSpace cPtr)))"
      by (simp add: tokenizeLine_def case_prod_beta split: list.splits)
    ultimately show ?thesis
      using length_skipSpace [of cPtr] by simp
  qed
qed

lemma tokenizeLine_rest:
  "(tokens, rest) = tokenizeLine cPtr \<Longrightarrow> cPtr \<noteq> [] \<Longrightarrow> length rest < length cPtr"
  using tokenizeLine_progress [of cPtr] by (metis snd_conv)

text \<open>
  The line loop of \<open>Sandbox::frame\<close>: \<open>while(*cPtr!='\0')\<close> one line is tokenized, an
  empty line is skipped, and the command of any other line is run.
\<close>

function commandLoop :: "Library \<Rightarrow> Sandbox \<Rightarrow> string \<Rightarrow> Sandbox option" where
  "commandLoop E sb cPtr =
     (if cPtr = [] then Some sb
      else (case tokenizeLine cPtr of
              (tokens, rest) \<Rightarrow>
                if tokens = [] then commandLoop E sb rest
                else (case parseCommand E sb tokens of
                        None \<Rightarrow> None
                      | Some sb1 \<Rightarrow> commandLoop E sb1 rest)))"
  by pat_completeness auto
termination
  by (relation "measure (\<lambda>(E, sb, cPtr). length cPtr)")
     (auto dest: tokenizeLine_rest)

text \<open>
  The control pipe part of \<open>Sandbox::frame\<close>: the bytes that \<open>read\<close> returned are
  terminated with a NUL and processed as a C string, that is up to their first NUL.
\<close>

definition frame :: "Library \<Rightarrow> Sandbox \<Rightarrow> string \<Rightarrow> Sandbox option" where
  "frame E sb commandBuffer = commandLoop E sb (takeWhile (\<lambda>c. c \<noteq> CHR 0x00) commandBuffer)"

definition waterAttenuationSliderCallback :: "real \<Rightarrow> Sandbox \<Rightarrow> Sandbox option" where
  "waterAttenuationSliderCallback v sb =
     (case waterTable sb of
        None \<Rightarrow> None
      | Some wt \<Rightarrow> Some (sb\<lparr>waterTable := Some (setAttenuation (1 - v) wt)\<rparr>))"

text \<open>
  The commands of the control pipe and the numbers of tokens (the command name
  included) with which each is accepted. A line is malformed when its first token is no
  command name or its number of tokens is not accepted for the command.
\<close>

definition commandNames :: "string list" where
  "commandNames =
     [''snowLine'', ''snowMelt'', ''waterSpeed'', ''waterMaxSteps'', ''waterMode'',
      ''waterAttenuation'', ''waterRoughness'', ''rainStrength'', ''waterAbsorption'',
      ''evaporationRate'', ''waterColor'', ''waterReflectionColor'', ''colorCycle'',
      ''colorMap'', ''heightMapPlane'', ''useContourLines'', ''contourLineSpacing'',
      ''dippingBed'', ''foldedDippingBed'', ''dippingBedThickness'', ''loadWarpTexture'',
      ''useWarpTexture'', ''warpIntensity'', ''textureScale'', ''gradientThreshold'',
      ''warpMode'', ''textureBlendMode'', ''textureOpacity'']"

definition recognized :: "string \<Rightarrow> bool" where
  "recognized token = list_ex (isToken token) commandNames"

definition argumentCountOk :: "string \<Rightarrow> nat \<Rightarrow> bool" where
  "argumentCountOk token n =
     (if isToken token ''waterColor'' \<or> isToken token ''waterReflectionColor'' then n = 4
      else if isToken token ''colorCycle'' then 2 \<le> n
      else if isToken token ''heightMapPlane'' then n = 5
      else if isToken token ''dippingBed'' then n = 2 \<or> n = 5
      else if isToken token ''foldedDippingBed'' then n = 6
      else n = 2)"

definition malformed :: "string list \<Rightarrow> bool" where
  "malformed tokens =
     (tokens \<noteq> []
      \<and> (\<not> recognized (tokens ! 0) \<or> \<not> argumentCountOk (tokens ! 0) (length tokens)))"

text \<open>
  What \<open>createWaterControlDialog\<close> establishes: the three sliders and the radio box that
  the constructor's initialiser list omits point to their widgets. The constructor
  creates the dialog exactly when it has created the water table.
\<close>

fun assigned :: "'a widgetPointer \<Rightarrow> bool" where
  "assigned (PointsTo w) = True"
| "assigned p = False"

definition dialogCreated :: "Sandbox \<Rightarrow> bool" where
  "dialogCreated sb =
     (assigned (snowMeltSlider sb) \<and> assigned (waterRoughnessSlider sb)
      \<and> assigned (waterAbsorptionSlider sb) \<and> assigned (waterModeRadioBox sb))"

text \<open>
  A command result that is the given state with one more message on the error stream,
  and a command result that is a state in which the dialog still exists.
\<close>

definition complaint :: "Sandbox \<Rightarrow> Sandbox option \<Rightarrow> bool" where
  "complaint sb r = (\<exists>message. r = Some (complain message sb))"

definition survives :: "Sandbox option \<Rightarrow> bool" where
  "survives r = (\<exists>sb'. r = Some sb' \<and> dialogCreated sb')"

section \<open>The hysteresis test of the Depth Stabilizer\<close>

text \<open>
  Modelled from the spec: the hysteresis test of the Depth Stabilizer (class
  \<open>FrameFilter\<close> is not among the sources; Sandbox.cpp only creates it and passes raw
  frames to it). For one cell, a converged candidate value is compared with the cell's
  previously published value: the published value changes to the candidate only if the
  candidate differs from it by more than the half-width of the hysteresis envelope,
  which is \<open>hysteresis / 2\<close>; otherwise the previous value is retained.
\<close>

definition publish :: "real \<Rightarrow> real \<Rightarrow> real \<Rightarrow> real" where
  "publish hysteresis published candidate =
     (if \<bar>candidate - published\<bar> > hysteresis / 2 then candidate else published)"

text \<open>The values published for the cell after each candidate of a sequence.\<close>

fun publishedValues :: "real \<Rightarrow> real \<Rightarrow> real list \<Rightarrow> real list" where
  "publishedValues hysteresis published [] = []"
| "publishedValues hysteresis published (candidate # candidates) =
     publish hysteresis published candidate
       # publishedValues hysteresis (publish hysteresis published candidate) candidates"

section \<open>Concrete configurations\<close>

text \<open>
  A decimal reading of \<open>atof\<close> and \<open>atoi\<close>: optional white space, an optional sign,
  digits and, for \<open>atof\<close>, an optional fraction; 0 when there is no digit. It agrees with
  the C library on plain decimal text and is used for concrete inputs only.
\<close>

definition isdigit :: "char \<Rightarrow> bool" where
  "isdigit c = (48 \<le> (of_char c :: nat) \<and> (of_char c :: nat) \<le> 57)"

fun digits :: "nat \<Rightarrow> string \<Rightarrow> nat \<times> string" where
  "digits acc [] = (acc, [])"
| "digits acc (c # cs) =
     (if isdigit c then digits (10 * acc + (of_char c - 48)) cs else (acc, c # cs))"

fun fraction :: "real \<Rightarrow> real \<Rightarrow> string \<Rightarrow> real" where
  "fraction acc scale [] = acc"
| "fraction acc scale (c # cs) =
     (if isdigit c then fraction (acc + real (of_char c - 48) * scale / 10) (scale / 10) cs
      else acc)"

definition unsignedDecimal :: "string \<Rightarrow> real" where
  "unsignedDecimal s =
     (case digits 0 s of
        (n, r) \<Rightarrow> (case r of
                     [] \<Rightarrow> real n
                   | c # cs \<Rightarrow> if c = CHR ''.'' then fraction (real n) 1 cs else real n))"

definition decimalAtof :: "string \<Rightarrow> real" where
  "decimalAtof s =
     (case dropWhile isspace s of
        [] \<Rightarrow> 0
      | c # cs \<Rightarrow> if c = CHR ''-'' then - unsignedDecimal cs
                  else if c = CHR ''+'' then unsignedDecimal cs
                  else unsignedDecimal (c # cs))"

definition decimalAtoi :: "string \<Rightarrow> int" where
  "decimalAtoi s =
     (case dropWhile isspace s of
        [] \<Rightarrow> 0
      | c # cs \<Rightarrow> if c = CHR ''-'' then - int (fst (digits 0 cs))
                  else if c = CHR ''+'' then int (fst (digits 0 cs))
                  else int (fst (digits 0 (c # cs))))"

text \<open>
  Exact arithmetic: no result is rounded. The concrete library prints every number as
  the same word; no concrete input below prints one.
\<close>

definition exact :: Rounding where
  "exact = \<lparr>toGLfloat = (\<lambda>x. x), toDouble = (\<lambda>x. x)\<rparr>"

definition decimalLibrary :: Library where
  "decimalLibrary =
     \<lparr>atof = decimalAtof, atoi = decimalAtoi, rounding = exact,
      showGLfloat = (\<lambda>x. ''number''), loadHeightMap = (\<lambda>name. None)\<rparr>"

text \<open>
  Kernels for concrete runs: the arithmetic is exact, the bathymetry update installs the
  grid \<open>[5, 6]\<close>, the stability constraint allows steps of 1/60, and a step of size \<open>s\<close>
  raises every water level by \<open>s\<close>.
\<close>

definition exampleKernels :: Kernels where
  "exampleKernels =
     \<lparr>arithmetic = exact,
      updateBathymetry = (\<lambda>cd. cd\<lparr>bathymetryTexture := [5, 6]\<rparr>),
      stabilityStepSize = (\<lambda>wt cd. 1 / 60),
      integrate = (\<lambda>s wt cd. cd\<lparr>quantityTexture := map (\<lambda>x. x + s) (quantityTexture cd)\<rparr>)\<rparr>"

definition exampleWaterTable :: WaterTable2 where
  "exampleWaterTable =
     \<lparr>mode = Traditional, maxStepSize = 1, minStepSize = 0, attenuation = 127 / 128,
      snowLine = 0, snowMelt = 0, waterDeposit = 0,
      renderFunctions =
        [\<lambda>cd. cd\<lparr>quantityTexture := map (\<lambda>x. x + 1 / 4) (quantityTexture cd)\<rparr>]\<rparr>"

text \<open>
  A sandbox with the default parameters of the constructor (water speed 1, 30 steps, rain
  strength 0.25) and the sliders of the water control dialog with the ranges that
  \<open>createWaterControlDialog\<close> gives them.
\<close>

definition exampleSandbox :: Sandbox where
  "exampleSandbox =
     \<lparr>frameFilter = Some [], pauseUpdates = False, handExtractor = Some [],
      waterTable = Some exampleWaterTable, waterSpeed = 1, waterMaxSteps = 30,
      rainStrength = 1 / 4,
      propertyGridCreator = Some \<lparr>roughness = 1 / 100, absorption = 0\<rparr>,
      gridRequest = newGridRequest,
      snowLineSlider = Some \<lparr>valueMin = - 2, valueMax = 20, sliderValue = 0\<rparr>,
      snowMeltSlider = PointsTo \<lparr>valueMin = 0, valueMax = 10, sliderValue = 0\<rparr>,
      waterSpeedSlider = Some \<lparr>valueMin = 1 / 1000, valueMax = 10, sliderValue = 1\<rparr>,
      waterMaxStepsSlider = Some \<lparr>valueMin = 0, valueMax = 200, sliderValue = 30\<rparr>,
      waterAttenuationSlider = Some \<lparr>valueMin = 1 / 1000, valueMax = 1, sliderValue = 1 / 128\<rparr>,
      waterRoughnessSlider =
        PointsTo \<lparr>valueMin = 1 / 1000, valueMax = 1 / 10, sliderValue = 1 / 100\<rparr>,
      waterAbsorptionSlider = PointsTo \<lparr>valueMin = - 1, valueMax = 1, sliderValue = 0\<rparr>,
      waterModeRadioBox = PointsTo 0, cerr = [], rendererCalls = []\<rparr>"

text \<open>
  A sandbox started with \<open>-ws 0.0 0\<close>: the constructor creates no water table, no
  property grid creator, no hand extractor and no water control dialog, so the pointers
  of its initialiser list are null and the four it omits are indeterminate. The control
  pipe is opened all the same.
\<close>

definition sandboxWithoutWaterTable :: Sandbox where
  "sandboxWithoutWaterTable =
     \<lparr>frameFilter = Some [], pauseUpdates = False, handExtractor = None,
      waterTable = None, waterSpeed = 0, waterMaxSteps = 0, rainStrength = 1 / 4,
      propertyGridCreator = None, gridRequest = newGridRequest,
      snowLineSlider = None, snowMeltSlider = Indeterminate, waterSpeedSlider = None,
      waterMaxStepsSlider = None, waterAttenuationSlider = None,
      waterRoughnessSlider = Indeterminate, waterAbsorptionSlider = Indeterminate,
      waterModeRadioBox = Indeterminate, cerr = [], rendererCalls = []\<rparr>"

definition exampleContext :: GLContextData where
  "exampleContext = newDataItem [0, 0] [0, 0] [0, 0]"

text \<open>The same sandbox with a pending request for all three grids.\<close>

definition requestingSandbox :: Sandbox where
  "requestingSandbox =
     exampleSandbox\<lparr>gridRequest := snd (requestGrids 100 200 300 7 9 newGridRequest)\<rparr>"

section \<open>Properties of the stepping loop and of the display cycle\<close>

declare stepLoop.simps [simp del]

lemma executedSteps_append: "executedSteps (xs @ ys) = executedSteps xs @ executedSteps ys"
  by (induction xs rule: executedSteps.induct) auto

lemma executedSteps_renderFunctions: "executedSteps (map EvRenderFunction is) = []"
  by (induction "is") auto

lemma executedSteps_none: "\<forall>e \<in> set evs. \<not> isStepEvent e \<Longrightarrow> executedSteps evs = []"
  by (induction evs rule: executedSteps.induct) auto

lemma runSimulationStep_events:
  "runSimulationStep K wt cd = (timeStep, cd1, evs1) \<Longrightarrow>
     executedSteps evs1 = [timeStep] \<and> (\<forall>e \<in> set evs1. isStepEvent e) \<and> timeStep \<le> maxStepSize wt"
  by (auto simp: runSimulationStep_def Let_def executedSteps_append executedSteps_renderFunctions)

lemma stepLoop_idle:
  "totalTimeStep \<le> epsilon K \<Longrightarrow>
     stepLoop K maxSteps numSteps totalTimeStep wt cd evs = (numSteps, totalTimeStep, wt, cd, evs)"
  by (simp add: stepLoop.simps [of K maxSteps numSteps totalTimeStep])

lemma stepLoop_trace:
  "stepLoop K maxSteps numSteps t wt cd evs = (n', t', wt', cd', evs') \<Longrightarrow>
     \<exists>new. evs' = evs @ new
        \<and> (\<forall>e \<in> set new. isStepEvent e)
        \<and> stepsUnderBudget K t (executedSteps new)
        \<and> unat numSteps + length (executedSteps new) = unat n'
        \<and> (numSteps \<le> maxSteps \<longrightarrow> n' \<le> maxSteps)"
proof (induction K maxSteps numSteps t wt cd evs arbitrary: n' t' wt' cd' evs' rule: stepLoop.induct)
  case (1 K maxSteps numSteps t wt cd evs)
  show ?case
  proof (cases "numSteps < maxSteps \<and> t > epsilon K")
    case False
    with "1.prems" have "n' = numSteps" "evs' = evs"
      by (auto simp: stepLoop.simps [of K maxSteps numSteps t])
    then show ?thesis by simp
  next
    case True
    obtain timeStep cd1 evs1 where
      rs: "runSimulationStep K (setMaxStepSize t wt) cd = (timeStep, cd1, evs1)"
      by (cases "runSimulationStep K (setMaxStepSize t wt) cd") auto
    from rs have ev: "executedSteps evs1 = [timeStep]" "\<forall>e \<in> set evs1. isStepEvent e"
      using runSimulationStep_events [OF rs] by auto
    from True rs "1.prems" have rec:
      "stepLoop K maxSteps (numSteps + 1) (toGLfloat (arithmetic K) (t - timeStep))
         (setMaxStepSize t wt) cd1 (evs @ evs1) = (n', t', wt', cd', evs')"
      by (simp add: stepLoop.simps [of K maxSteps numSteps t])
    from "1.IH" [OF True rs [symmetric] refl rec] obtain new where new:
      "evs' = (evs @ evs1) @ new" "\<forall>e \<in> set new. isStepEvent e"
      "stepsUnderBudget K (toGLfloat (arithmetic K) (t - timeStep)) (executedSteps new)"
      "unat (numSteps + 1) + length (executedSteps new) = unat n'"
      "numSteps + 1 \<le> maxSteps \<longrightarrow> n' \<le> maxSteps"
      by blast
    from True have suc: "unat (numSteps + 1) = Suc (unat numSteps)"
      using unat_succ_below [of numSteps maxSteps] by simp
    from True have "numSteps + 1 \<le> maxSteps"
      by (simp add: inc_le)
    with new(5) have bound: "n' \<le> maxSteps" by simp
    show ?thesis
    proof (intro exI [of _ "evs1 @ new"] conjI)
      show "evs' = evs @ evs1 @ new" using new(1) by simp
      show "\<forall>e \<in> set (evs1 @ new). isStepEvent e" using ev(2) new(2) by auto
      show "stepsUnderBudget K t (executedSteps (evs1 @ new))"
        using ev(1) new(3) True by (simp add: executedSteps_append)
      show "unat numSteps + length (executedSteps (evs1 @ new)) = unat n'"
        using ev(1) new(4) suc by (simp add: executedSteps_append)
      show "numSteps \<le> maxSteps \<longrightarrow> n' \<le> maxSteps" using bound by simp
    qed
  qed
qed

lemma display_idle:
  "waterTable sb = None \<or> waterTableTime cd = t \<Longrightarrow> display K t ft sb cd = (sb, cd, [])"
  by (auto simp: display_def split: option.splits)

lemma display_update:
  assumes "waterTable sb = Some wt" and "waterTableTime cd \<noteq> t"
    and "stepLoop K (waterMaxSteps sb) 0 (budget K ft (waterSpeed sb)) wt
           (updateBathymetry K cd) (beforeLoop K (currentRequest (gridRequest sb)) cd)
           = (n, rest, wt2, cd2, evs2)"
  shows "display K t ft sb cd =
           (sb\<lparr>waterTable := Some wt2, gridRequest := snd (getRequest (gridRequest sb))\<rparr>,
            cd2\<lparr>waterTableTime := t\<rparr>,
            evs2 @ afterLoop (currentRequest (gridRequest sb)) cd2)"
  using assms
  by (simp add: display_def getRequest_def)

lemma afterLoop_time: "afterLoop r (cd\<lparr>waterTableTime := t\<rparr>) = afterLoop r cd"
  by (simp add: afterLoop_def)



lemma beforeLoop_no_step: "\<forall>e \<in> set (beforeLoop K r cd). \<not> isStepEvent e"
  by (auto simp: beforeLoop_def)

lemma afterLoop_no_step: "\<forall>e \<in> set (afterLoop r cd). \<not> isStepEvent e"
  by (auto simp: afterLoop_def)

text \<open>
  The shape of every display cycle: either nothing happens, or the stepping loop runs
  between the two other parts.
\<close>

lemma display_cases:
  assumes "display K t ft sb cd = (sb', cd', evs)"
  obtains (idle) "waterTable sb = None \<or> waterTableTime cd = t" "sb' = sb" "cd' = cd" "evs = []"
  | (update) wt n rest wt2 cd2 steps where
      "waterTable sb = Some wt" "waterTableTime cd \<noteq> t"
      "stepLoop K (waterMaxSteps sb) 0 (budget K ft (waterSpeed sb)) wt (updateBathymetry K cd)
         (beforeLoop K (currentRequest (gridRequest sb)) cd)
         = (n, rest, wt2, cd2, beforeLoop K (currentRequest (gridRequest sb)) cd @ steps)"
      "\<forall>e \<in> set steps. isStepEvent e"
      "stepsUnderBudget K (budget K ft (waterSpeed sb)) (executedSteps steps)"
      "length (executedSteps steps) = unat n" "n \<le> waterMaxSteps sb"
      "sb' = sb\<lparr>waterTable := Some wt2, gridRequest := snd (getRequest (gridRequest sb))\<rparr>"
      "cd' = cd2\<lparr>waterTableTime := t\<rparr>"
      "evs = beforeLoop K (currentRequest (gridRequest sb)) cd @ steps
               @ afterLoop (currentRequest (gridRequest sb)) cd2"
proof (cases "waterTable sb = None \<or> waterTableTime cd = t")
  case True
  with assms display_idle [OF True, of K ft] show ?thesis
    by (intro idle) auto
next
  case False
  then obtain wt where wt: "waterTable sb = Some wt" and time: "waterTableTime cd \<noteq> t"
    by auto
  obtain n rest wt2 cd2 evs2 where loop:
    "stepLoop K (waterMaxSteps sb) 0 (budget K ft (waterSpeed sb)) wt (updateBathymetry K cd)
       (beforeLoop K (currentRequest (gridRequest sb)) cd) = (n, rest, wt2, cd2, evs2)"
    by (metis prod_cases5)
  from stepLoop_trace [OF loop] obtain steps where steps:
    "evs2 = beforeLoop K (currentRequest (gridRequest sb)) cd @ steps"
    "\<forall>e \<in> set steps. isStepEvent e"
    "stepsUnderBudget K (budget K ft (waterSpeed sb)) (executedSteps steps)"
    "unat (0 :: 32 word) + length (executedSteps steps) = unat n"
    "(0 :: 32 word) \<le> waterMaxSteps sb \<longrightarrow> n \<le> waterMaxSteps sb"
    by blast
  from display_update [OF wt time loop] assms have res:
    "sb' = sb\<lparr>waterTable := Some wt2, gridRequest := snd (getRequest (gridRequest sb))\<rparr>"
    "cd' = cd2\<lparr>waterTableTime := t\<rparr>"
    "evs = evs2 @ afterLoop (currentRequest (gridRequest sb)) cd2"
    by simp_all
  show ?thesis
  proof (rule update [OF wt time])
    show "stepLoop K (waterMaxSteps sb) 0 (budget K ft (waterSpeed sb)) wt
         (updateBathymetry K cd) (beforeLoop K (currentRequest (gridRequest sb)) cd)
         = (n, rest, wt2, cd2, beforeLoop K (currentRequest (gridRequest sb)) cd @ steps)"
      using loop steps(1) by simp
    show "\<forall>e \<in> set steps. isStepEvent e" by (rule steps(2))
    show "stepsUnderBudget K (budget K ft (waterSpeed sb)) (executedSteps steps)"
      by (rule steps(3))
    show "length (executedSteps steps) = unat n" using steps(4) by simp
    show "n \<le> waterMaxSteps sb" using steps(5) by simp
    show "sb' = sb\<lparr>waterTable := Some wt2, gridRequest := snd (getRequest (gridRequest sb))\<rparr>"
      by (rule res(1))
    show "cd' = cd2\<lparr>waterTableTime := t\<rparr>" by (rule res(2))
    show "evs = beforeLoop K (currentRequest (gridRequest sb)) cd @ steps
               @ afterLoop (currentRequest (gridRequest sb)) cd2"
      using res(3) steps(1) by simp
  qed
qed

section \<open>Properties of the control pipe\<close>

declare commandLoop.simps [simp del]
declare extractTokens.simps [simp del]

lemma lower_commandNames:
  "map (map tolower) commandNames =
     [''snowline'', ''snowmelt'', ''waterspeed'', ''watermaxsteps'', ''watermode'',
      ''waterattenuation'', ''waterroughness'', ''rainstrength'', ''waterabsorption'',
      ''evaporationrate'', ''watercolor'', ''waterreflectioncolor'', ''colorcycle'',
      ''colormap'', ''heightmapplane'', ''usecontourlines'', ''contourlinespacing'',
      ''dippingbed'', ''foldeddippingbed'', ''dippingbedthickness'', ''loadwarptexture'',
      ''usewarptexture'', ''warpintensity'', ''texturescale'', ''gradientthreshold'',
      ''warpmode'', ''textureblendmode'', ''textureopacity'']"
  by (simp add: commandNames_def tolower_def)

lemma lower_names:
  "map tolower ''snowLine'' = ''snowline''"
  "map tolower ''snowMelt'' = ''snowmelt''"
  "map tolower ''waterSpeed'' = ''waterspeed''"
  "map tolower ''waterMaxSteps'' = ''watermaxsteps''"
  "map tolower ''waterMode'' = ''watermode''"
  "map tolower ''waterAttenuation'' = ''waterattenuation''"
  "map tolower ''waterRoughness'' = ''waterroughness''"
  "map tolower ''rainStrength'' = ''rainstrength''"
  "map tolower ''waterAbsorption'' = ''waterabsorption''"
  "map tolower ''evaporationRate'' = ''evaporationrate''"
  "map tolower ''waterColor'' = ''watercolor''"
  "map tolower ''waterReflectionColor'' = ''waterreflectioncolor''"
  "map tolower ''colorCycle'' = ''colorcycle''"
  "map tolower ''colorMap'' = ''colormap''"
  "map tolower ''heightMapPlane'' = ''heightmapplane''"
  "map tolower ''useContourLines'' = ''usecontourlines''"
  "map tolower ''contourLineSpacing'' = ''contourlinespacing''"
  "map tolower ''dippingBed'' = ''dippingbed''"
  "map tolower ''foldedDippingBed'' = ''foldeddippingbed''"
  "map tolower ''dippingBedThickness'' = ''dippingbedthickness''"
  "map tolower ''loadWarpTexture'' = ''loadwarptexture''"
  "map tolower ''useWarpTexture'' = ''usewarptexture''"
  "map tolower ''warpIntensity'' = ''warpintensity''"
  "map tolower ''textureScale'' = ''texturescale''"
  "map tolower ''gradientThreshold'' = ''gradientthreshold''"
  "map tolower ''warpMode'' = ''warpmode''"
  "map tolower ''textureBlendMode'' = ''textureblendmode''"
  "map tolower ''textureOpacity'' = ''textureopacity''"
  by (simp_all add: tolower_def)

text \<open>An unrecognized first token falls through the whole chain.\<close>

lemma parseCommand_unrecognized:
  assumes "\<not> recognized (tokens ! 0)"
  shows "parseCommand E sb tokens
           = Some (complain (''Unrecognized control pipe command '' @ tokens ! 0) sb)"
  using assms by (simp add: recognized_def commandNames_def parseCommand_def)

lemma complaint_simps:
  "complaint sb (wrongArguments name sb)"
  "complaint sb (Some (complain message sb))"
  by (auto simp: complaint_def wrongArguments_def)

lemma parseCommand_wrong_count:
  assumes "recognized (tokens ! 0)" and "\<not> argumentCountOk (tokens ! 0) (length tokens)"
  shows "complaint sb (parseCommand E sb tokens)"
proof -
  from assms(1) obtain p where p: "p \<in> set commandNames" "isToken (tokens ! 0) p"
    by (auto simp: recognized_def list_ex_iff)
  from p(2) have low: "map tolower (tokens ! 0) = map tolower p"
    by (simp add: isToken_def)
  from p(1) have "map tolower p \<in> set (map (map tolower) commandNames)"
    by simp
  with low have "map tolower (tokens ! 0) \<in> set (map (map tolower) commandNames)"
    by simp
  then have cases:
    "map tolower (tokens ! 0) = ''snowline'' \<or> map tolower (tokens ! 0) = ''snowmelt''
     \<or> map tolower (tokens ! 0) = ''waterspeed'' \<or> map tolower (tokens ! 0) = ''watermaxsteps''
     \<or> map tolower (tokens ! 0) = ''watermode'' \<or> map tolower (tokens ! 0) = ''waterattenuation''
     \<or> map tolower (tokens ! 0) = ''waterroughness'' \<or> map tolower (tokens ! 0) = ''rainstrength''
     \<or> map tolower (tokens ! 0) = ''waterabsorption'' \<or> map tolower (tokens ! 0) = ''evaporationrate''
     \<or> map tolower (tokens ! 0) = ''watercolor''
     \<or> map tolower (tokens ! 0) = ''waterreflectioncolor''
     \<or> map tolower (tokens ! 0) = ''colorcycle'' \<or> map tolower (tokens ! 0) = ''colormap''
     \<or> map tolower (tokens ! 0) = ''heightmapplane''
     \<or> map tolower (tokens ! 0) = ''usecontourlines''
     \<or> map tolower (tokens ! 0) = ''contourlinespacing''
     \<or> map tolower (tokens ! 0) = ''dippingbed'' \<or> map tolower (tokens ! 0) = ''foldeddippingbed''
     \<or> map tolower (tokens ! 0) = ''dippingbedthickness''
     \<or> map tolower (tokens ! 0) = ''loadwarptexture''
     \<or> map tolower (tokens ! 0) = ''usewarptexture'' \<or> map tolower (tokens ! 0) = ''warpintensity''
     \<or> map tolower (tokens ! 0) = ''texturescale''
     \<or> map tolower (tokens ! 0) = ''gradientthreshold''
     \<or> map tolower (tokens ! 0) = ''warpmode'' \<or> map tolower (tokens ! 0) = ''textureblendmode''
     \<or> map tolower (tokens ! 0) = ''textureopacity''"
    unfolding lower_commandNames by simp
  from cases assms(2) show ?thesis
    unfolding parseCommand_def argumentCountOk_def isToken_def lower_names
    by (elim disjE) (simp_all add: complaint_simps split del: if_split)
qed

lemma survives_leaves:
  "dialogCreated sb \<Longrightarrow> survives (wrongArguments name sb)"
  "dialogCreated sb \<Longrightarrow> survives (invalidParameter parameter name sb)"
  "dialogCreated sb \<Longrightarrow> survives (toRenderers tokens sb)"
  "dialogCreated sb \<Longrightarrow> survives (selectWaterMode m toggle sb)"
  "dialogCreated sb \<Longrightarrow> survives (Some (complain message sb))"
  by (auto simp: survives_def dialogCreated_def wrongArguments_def invalidParameter_def
      toRenderers_def selectWaterMode_def complain_def
      split: option.splits widgetPointer.splits)

lemma survives_Some: "survives (Some sb') = dialogCreated sb'"
  by (simp add: survives_def)

lemma survives_if:
  "(c \<Longrightarrow> survives a) \<Longrightarrow> (\<not> c \<Longrightarrow> survives b) \<Longrightarrow> survives (if c then a else b)"
  by simp

lemma assigned_PointsTo: "assigned p \<Longrightarrow> \<exists>w. p = PointsTo w"
  by (cases p) simp_all

lemma survives_setIfPresent:
  assumes "assigned p" and "\<And>s. survives (g (PointsTo s))"
  shows "survives (case setIfPresent v p of None \<Rightarrow> None | Some slider \<Rightarrow> g slider)"
  using assigned_PointsTo [OF assms(1)] assms(2) by (auto simp: setIfPresent_def)

lemma survives_sliders:
  assumes "dialogCreated sb" and "\<And>s. survives (g (PointsTo s))"
  shows "survives (case setIfPresent v (snowMeltSlider sb) of
                     None \<Rightarrow> None | Some slider \<Rightarrow> g slider)"
    and "survives (case setIfPresent v (waterRoughnessSlider sb) of
                     None \<Rightarrow> None | Some slider \<Rightarrow> g slider)"
    and "survives (case setIfPresent v (waterAbsorptionSlider sb) of
                     None \<Rightarrow> None | Some slider \<Rightarrow> g slider)"
proof -
  from assms(1) have p: "assigned (snowMeltSlider sb)" "assigned (waterRoughnessSlider sb)"
    "assigned (waterAbsorptionSlider sb)"
    by (simp_all add: dialogCreated_def)
  show "survives (case setIfPresent v (snowMeltSlider sb) of
                    None \<Rightarrow> None | Some slider \<Rightarrow> g slider)"
    using p(1) assms(2) by (rule survives_setIfPresent)
  show "survives (case setIfPresent v (waterRoughnessSlider sb) of
                    None \<Rightarrow> None | Some slider \<Rightarrow> g slider)"
    using p(2) assms(2) by (rule survives_setIfPresent)
  show "survives (case setIfPresent v (waterAbsorptionSlider sb) of
                    None \<Rightarrow> None | Some slider \<Rightarrow> g slider)"
    using p(3) assms(2) by (rule survives_setIfPresent)
qed

lemma survives_loadHeightMap:
  assumes "survives a" and "\<And>what. survives (g what)"
  shows "survives (case loadHeightMap E name of None \<Rightarrow> a | Some what \<Rightarrow> g what)"
  using assms by (simp split: option.split)

lemma survives_updates:
  assumes "dialogCreated sb"
  shows "survives (Some (sb\<lparr>snowLineSlider := s1, waterTable := map_option f (waterTable sb)\<rparr>))"
    and "survives (Some (sb\<lparr>snowMeltSlider := PointsTo s,
                            waterTable := map_option f (waterTable sb)\<rparr>))"
    and "survives (Some (sb\<lparr>waterSpeed := v, waterSpeedSlider := s1\<rparr>))"
    and "survives (Some (sb\<lparr>waterMaxSteps := n, waterMaxStepsSlider := s1\<rparr>))"
    and "survives (Some (sb\<lparr>waterTable := map_option f (waterTable sb),
                            waterAttenuationSlider := s1\<rparr>))"
    and "survives (Some (sb\<lparr>propertyGridCreator := p, waterRoughnessSlider := PointsTo s\<rparr>))"
    and "survives (Some (sb\<lparr>rainStrength := v\<rparr>))"
    and "survives (Some (sb\<lparr>propertyGridCreator := p, waterAbsorptionSlider := PointsTo s\<rparr>))"
    and "survives (Some (sb\<lparr>waterTable := map_option f (waterTable sb)\<rparr>))"
  using assms by (auto simp: survives_def dialogCreated_def)

lemma parseCommand_survives:
  assumes "dialogCreated sb"
  shows "survives (parseCommand E sb tokens)"
  unfolding parseCommand_def Let_def
  by (intro survives_if survives_sliders [OF assms] survives_loadHeightMap
      survives_leaves [OF assms] survives_updates [OF assms])

lemma commandLoop_survives:
  "dialogCreated sb \<Longrightarrow> survives (commandLoop E sb cPtr)"
proof (induction E sb cPtr rule: commandLoop.induct)
  case (1 E sb cPtr)
  show ?case
  proof (cases "cPtr = []")
    case True
    with "1.prems" show ?thesis by (simp add: commandLoop.simps survives_def)
  next
    case False
    obtain tokens rest where tl: "tokenizeLine cPtr = (tokens, rest)"
      by (cases "tokenizeLine cPtr") auto
    show ?thesis
    proof (cases "tokens = []")
      case True
      from "1.IH"(1) [OF False tl [symmetric] True "1.prems"]
      have "survives (commandLoop E sb rest)" .
      with False tl True show ?thesis
        by (simp add: commandLoop.simps [of E sb cPtr])
    next
      case nonempty: False
      from parseCommand_survives [OF "1.prems", of E tokens]
      obtain sb1 where sb1: "parseCommand E sb tokens = Some sb1" "dialogCreated sb1"
        by (auto simp: survives_def)
      from "1.IH"(2) [OF False tl [symmetric] nonempty sb1(1) sb1(2)]
      have "survives (commandLoop E sb1 rest)" .
      with False tl nonempty sb1(1) show ?thesis
        by (simp add: commandLoop.simps [of E sb cPtr])
    qed
  qed
qed

text \<open>A line that ends with a newline is tokenized on its own; the rest is left unread.\<close>

lemma skipSpace_newline:
  "CHR 0x0A \<notin> set line \<Longrightarrow>
     skipSpace (line @ CHR 0x0A # rest) = skipSpace line @ CHR 0x0A # rest"
  by (induction line) auto

lemma set_skipSpace: "set (skipSpace cs) \<subseteq> set cs"
  by (induction cs) auto

lemma newline_isspace: "isspace (CHR 0x0A)"
  by (simp add: isspace_def)

lemma takeWhile_newline:
  "takeWhile (\<lambda>x. \<not> isspace x) (cs @ CHR 0x0A # rest) = takeWhile (\<lambda>x. \<not> isspace x) cs"
  by (induction cs) (auto simp: newline_isspace)

lemma dropWhile_newline:
  "dropWhile (\<lambda>x. \<not> isspace x) (cs @ CHR 0x0A # rest)
     = dropWhile (\<lambda>x. \<not> isspace x) cs @ CHR 0x0A # rest"
  by (induction cs) (auto simp: newline_isspace)


lemma extractTokens_newline:
  "CHR 0x0A \<notin> set cs \<Longrightarrow>
     extractTokens (cs @ CHR 0x0A # rest) = (fst (extractTokens cs), CHR 0x0A # rest)"
proof (induction cs rule: extractTokens.induct)
  case 1
  show ?case by (simp add: extractTokens.simps)
next
  case (2 c cs)
  let ?P = "\<lambda>x. \<not> isspace x"
  let ?next = "skipSpace (dropWhile ?P (c # cs))"
  from "2.prems" have ne: "c \<noteq> CHR 0x0A" by auto
  have nodrop: "CHR 0x0A \<notin> set (dropWhile ?P (c # cs))"
    using "2.prems" set_dropWhileD [of "CHR 0x0A" ?P "c # cs"] by blast
  then have nonext: "CHR 0x0A \<notin> set ?next"
    using set_skipSpace [of "dropWhile ?P (c # cs)"] by blast
  from "2.IH" [OF ne nonext]
  have ih: "extractTokens (?next @ CHR 0x0A # rest) = (fst (extractTokens ?next), CHR 0x0A # rest)" .
  have next_eq: "skipSpace (dropWhile ?P ((c # cs) @ CHR 0x0A # rest)) = ?next @ CHR 0x0A # rest"
    using skipSpace_newline [OF nodrop, of rest] by (simp only: dropWhile_newline)
  have tw: "takeWhile ?P ((c # cs) @ CHR 0x0A # rest) = takeWhile ?P (c # cs)"
    by (rule takeWhile_newline)
  have "extractTokens ((c # cs) @ CHR 0x0A # rest)
          = extractTokens (c # (cs @ CHR 0x0A # rest))"
    by simp
  also have "\<dots> = (case extractTokens (skipSpace (dropWhile ?P (c # (cs @ CHR 0x0A # rest)))) of
               (tokens, r) \<Rightarrow> (takeWhile ?P (c # (cs @ CHR 0x0A # rest)) # tokens, r))"
    using ne by (simp only: extractTokens.simps if_False)
  also have "\<dots> = (case extractTokens (?next @ CHR 0x0A # rest) of
               (tokens, r) \<Rightarrow> (takeWhile ?P (c # cs) # tokens, r))"
    using next_eq tw by (simp only: append_Cons)
  also have "\<dots> = (takeWhile ?P (c # cs) # fst (extractTokens ?next), CHR 0x0A # rest)"
    by (simp only: ih prod.case)
  also have "takeWhile ?P (c # cs) # fst (extractTokens ?next) = fst (extractTokens (c # cs))"
    using ne by (simp only: extractTokens.simps if_False case_prod_beta fst_conv)
  finally show ?case .
qed

lemma tokenizeLine_newline:
  assumes "CHR 0x0A \<notin> set line"
  shows "tokenizeLine (line @ CHR 0x0A # rest) = (fst (tokenizeLine line), rest)"
proof -
  have "CHR 0x0A \<notin> set (skipSpace line)"
    using assms set_skipSpace [of line] by blast
  from extractTokens_newline [OF this, of rest]
  have "extractTokens (skipSpace (line @ CHR 0x0A # rest))
          = (fst (extractTokens (skipSpace line)), CHR 0x0A # rest)"
    by (simp only: skipSpace_newline [OF assms])
  then show ?thesis
    by (simp add: tokenizeLine_def case_prod_beta)
qed

subsection \<open>Concrete display cycles\<close>

lemma example_arithmetic:
  "budget exampleKernels ft speed = ft * speed"
  "epsilon exampleKernels = 1 / 100000000"
  "toGLfloat (arithmetic exampleKernels) x = x"
  by (simp_all add: budget_def epsilon_def exampleKernels_def exact_def)

lemma example_loop:
  "stepLoop exampleKernels 30 0 (1 / 30) exampleWaterTable
       (updateBathymetry exampleKernels exampleContext) evs
     = (2, 0, exampleWaterTable\<lparr>maxStepSize := 1 / 60\<rparr>,
        \<lparr>waterTableTime = 0, bathymetryTexture = [5, 6], quantityTexture = [8 / 15, 8 / 15],
         snowTexture = [0, 0]\<rparr>,
        evs @ [EvRenderFunction 0, EvSimulationStep (1 / 60), EvRenderFunction 0,
               EvSimulationStep (1 / 60)])"
  by (simp add: stepLoop.simps runSimulationStep_def exampleKernels_def exact_def
      exampleWaterTable_def exampleContext_def newDataItem_def setMaxStepSize_def epsilon_def
      Let_def)

lemma requesting_fields:
  "waterTable requestingSandbox = Some exampleWaterTable"
  "waterSpeed requestingSandbox = 1"
  "waterMaxSteps requestingSandbox = 30"
  "currentRequest (gridRequest requestingSandbox)
     = \<lparr>bathymetryBuffer = 100, waterLevelBuffer = 200, snowHeightBuffer = 300,
        callback = 7, callbackData = 9\<rparr>"
  by (simp_all add: requestingSandbox_def exampleSandbox_def requestGrids_def
      newGridRequest_def inactiveRequest_def)

lemma example_cycle:
  "snd (display exampleKernels 1 (1 / 30) requestingSandbox exampleContext)
     = (\<lparr>waterTableTime = 1, bathymetryTexture = [5, 6], quantityTexture = [8 / 15, 8 / 15],
         snowTexture = [0, 0]\<rparr>,
        [EvGetRequest, EvUpdateBathymetry, EvReadBathymetryTexture 100 [5, 6],
         EvUpdatePropertyGrid, EvRenderFunction 0, EvSimulationStep (1 / 60),
         EvRenderFunction 0, EvSimulationStep (1 / 60),
         EvReadQuantityTexture 200 [8 / 15, 8 / 15], EvReadSnowTexture 300 [0, 0],
         EvComplete 7 100 200 300 9])"
proof -
  have time: "waterTableTime exampleContext \<noteq> 1"
    by (simp add: exampleContext_def newDataItem_def)
  have loop:
    "stepLoop exampleKernels (waterMaxSteps requestingSandbox) 0
         (budget exampleKernels (1 / 30) (waterSpeed requestingSandbox)) exampleWaterTable
         (updateBathymetry exampleKernels exampleContext)
         (beforeLoop exampleKernels (currentRequest (gridRequest requestingSandbox))
            exampleContext)
       = (2, 0, exampleWaterTable\<lparr>maxStepSize := 1 / 60\<rparr>,
          \<lparr>waterTableTime = 0, bathymetryTexture = [5, 6],
           quantityTexture = [8 / 15, 8 / 15], snowTexture = [0, 0]\<rparr>,
          beforeLoop exampleKernels (currentRequest (gridRequest requestingSandbox))
            exampleContext
          @ [EvRenderFunction 0, EvSimulationStep (1 / 60), EvRenderFunction 0,
             EvSimulationStep (1 / 60)])"
    by (simp only: requesting_fields example_loop example_arithmetic(1) mult_1_right)
  note display_update [OF requesting_fields(1) time loop]
  then show ?thesis
    by (simp add: requesting_fields(4) beforeLoop_def afterLoop_def isActive_def
        exampleKernels_def exampleContext_def newDataItem_def)
qed

lemma idle_cycle:
  assumes "speed \<le> 0"
  shows "snd (display exampleKernels 1 (1 / 30) (exampleSandbox\<lparr>waterSpeed := speed\<rparr>)
               exampleContext)
     = (\<lparr>waterTableTime = 1, bathymetryTexture = [5, 6], quantityTexture = [0, 0],
         snowTexture = [0, 0]\<rparr>,
        [EvGetRequest, EvUpdateBathymetry, EvUpdatePropertyGrid])"
proof -
  have wt: "waterTable (exampleSandbox\<lparr>waterSpeed := speed\<rparr>) = Some exampleWaterTable"
    by (simp add: exampleSandbox_def)
  have time: "waterTableTime exampleContext \<noteq> 1"
    by (simp add: exampleContext_def newDataItem_def)
  have "budget exampleKernels (1 / 30) (waterSpeed (exampleSandbox\<lparr>waterSpeed := speed\<rparr>))
          \<le> epsilon exampleKernels"
    using assms by (simp add: example_arithmetic)
  note loop = stepLoop_idle [OF this]
  note display_update [OF wt time loop]
  then show ?thesis
    by (simp add: beforeLoop_def afterLoop_def isActive_def exampleSandbox_def
        newGridRequest_def inactiveRequest_def exampleKernels_def exampleContext_def
        newDataItem_def)
qed


lemma display_result:
  "display K t ft sb cd
     = (fst (display K t ft sb cd), fst (snd (display K t ft sb cd)),
        snd (snd (display K t ft sb cd)))"
  by simp

section \<open>The snapshot request channel\<close>

text \<open>
  C3 (amended). At most one request is stored at any time. \<open>requestGrids\<close> returns
  success exactly when no request is live (the stored callback is null); it then stores
  the new request, and otherwise leaves the stored request as it is. Of two calls made
  on an empty channel before any \<open>getRequest\<close>, whichever takes the mutex first succeeds
  and the other fails, provided the callback of the first is not null. (A request with a
  null callback is stored but is not live, so a later call succeeds as well.)
\<close>

theorem requestGrids_single_outstanding:
  "fst (requestGrids b w s cb d g) = (\<not> isActive (currentRequest g))
   \<and> (\<not> isActive (currentRequest g) \<longrightarrow>
        currentRequest (snd (requestGrids b w s cb d g))
          = \<lparr>bathymetryBuffer = b, waterLevelBuffer = w, snowHeightBuffer = s,
             callback = cb, callbackData = d\<rparr>)
   \<and> (isActive (currentRequest g) \<longrightarrow> snd (requestGrids b w s cb d g) = g)
   \<and> (\<not> isActive (currentRequest g) \<and> cb \<noteq> 0 \<longrightarrow>
        fst (requestGrids b w s cb d g)
        \<and> \<not> fst (requestGrids b' w' s' cb' d' (snd (requestGrids b w s cb d g))))"
  by (simp add: requestGrids_def isActive_def)

text \<open>
  On the empty channel, a request with callback 7 is granted and stored; the next
  request, with callback 8, is refused and leaves the stored request as it is.
\<close>

theorem requestGrids_single_outstanding_witness:
  "\<not> isActive (currentRequest newGridRequest) \<and> (7 :: nat) \<noteq> 0
   \<and> fst (requestGrids 100 200 300 7 9 newGridRequest)
   \<and> currentRequest (snd (requestGrids 100 200 300 7 9 newGridRequest))
       = \<lparr>bathymetryBuffer = 100, waterLevelBuffer = 200, snowHeightBuffer = 300,
          callback = 7, callbackData = 9\<rparr>
   \<and> isActive (currentRequest (snd (requestGrids 100 200 300 7 9 newGridRequest)))
   \<and> \<not> fst (requestGrids 400 500 600 8 9 (snd (requestGrids 100 200 300 7 9 newGridRequest)))
   \<and> snd (requestGrids 400 500 600 8 9 (snd (requestGrids 100 200 300 7 9 newGridRequest)))
       = snd (requestGrids 100 200 300 7 9 newGridRequest)"
proof -
  have empty: "\<not> isActive (currentRequest newGridRequest)"
    by (simp add: newGridRequest_def inactiveRequest_def isActive_def)
  have first:
    "fst (requestGrids 100 200 300 7 9 newGridRequest)
     \<and> currentRequest (snd (requestGrids 100 200 300 7 9 newGridRequest))
         = \<lparr>bathymetryBuffer = 100, waterLevelBuffer = 200, snowHeightBuffer = 300,
            callback = 7, callbackData = 9\<rparr>
     \<and> \<not> fst (requestGrids 400 500 600 8 9
               (snd (requestGrids 100 200 300 7 9 newGridRequest)))"
    using requestGrids_single_outstanding
            [of 100 200 300 7 9 newGridRequest 400 500 600 8 9] empty
    by simp
  then have live: "isActive (currentRequest (snd (requestGrids 100 200 300 7 9 newGridRequest)))"
    by (simp add: isActive_def)
  with requestGrids_single_outstanding
         [of 400 500 600 8 9 "snd (requestGrids 100 200 300 7 9 newGridRequest)"]
  have "snd (requestGrids 400 500 600 8 9 (snd (requestGrids 100 200 300 7 9 newGridRequest)))
          = snd (requestGrids 100 200 300 7 9 newGridRequest)"
    by blast
  with empty first live show ?thesis by simp
qed

text \<open>
  C3 as stated fails: on the empty channel, a first request with a null callback is
  granted, and so is the second request; both calls succeed.
\<close>

theorem requestGrids_both_succeed_counterexample:
  "fst (requestGrids 100 200 300 0 9 newGridRequest)
   \<and> fst (requestGrids 400 500 600 8 9 (snd (requestGrids 100 200 300 0 9 newGridRequest)))"
  by (simp add: requestGrids_def newGridRequest_def inactiveRequest_def)

section \<open>The display cycle\<close>







text \<open>
  C4 (amended). In every display cycle whose budget \<open>GLfloat(frameTime * waterSpeed)\<close> is
  at or below the threshold \<open>1.0e-8f\<close>, the stepping loop executes no simulation step and
  hands back the water table and the grids as it received them, so no step and no render
  function (Contribution) event occurs and the water table is as before. The rest of
  the cycle still runs: when the cycle updates the simulation at all, the request is
  retrieved, the bathymetry grid and the property grid are updated before the loop and an
  active request is served after it. The grids after the cycle are therefore exactly the
  grids that the bathymetry update produced, which need not be the grids before the
  cycle.
\<close>

theorem display_no_budget_no_steps:
  assumes "budget K ft (waterSpeed sb) \<le> epsilon K"
    and "display K t ft sb cd = (sb', cd', evs)"
  shows "stepLoop K maxSteps numSteps (budget K ft (waterSpeed sb)) wt0 cd0 evs0
           = (numSteps, budget K ft (waterSpeed sb), wt0, cd0, evs0)
       \<and> executedSteps evs = [] \<and> (\<forall>e \<in> set evs. \<not> isStepEvent e)
       \<and> waterTable sb' = waterTable sb
       \<and> (if waterTable sb \<noteq> None \<and> waterTableTime cd \<noteq> t
           then cd' = (updateBathymetry K cd)\<lparr>waterTableTime := t\<rparr>
                \<and> evs = beforeLoop K (currentRequest (gridRequest sb)) cd
                          @ afterLoop (currentRequest (gridRequest sb)) cd'
           else cd' = cd \<and> evs = [])"
  using assms(2)
proof (cases rule: display_cases)
  case idle
  then show ?thesis using stepLoop_idle [OF assms(1)] by auto
next
  case (update wt n rest wt2 cd2 steps)
  from stepLoop_idle [OF assms(1)] update(3)
  have same: "steps = []" "wt2 = wt" "cd2 = updateBathymetry K cd" by simp_all
  have no_step: "\<forall>e \<in> set evs. \<not> isStepEvent e"
    using update(10) same(1) beforeLoop_no_step [of K "currentRequest (gridRequest sb)" cd]
      afterLoop_no_step [of "currentRequest (gridRequest sb)" cd2]
    by auto
  from no_step have none: "executedSteps evs = []" by (rule executedSteps_none)
  have wt: "waterTable sb' = waterTable sb" using update(8) update(1) same(2) by simp
  have cd: "cd' = (updateBathymetry K cd)\<lparr>waterTableTime := t\<rparr>"
    using update(9) same(3) by simp
  have evs: "evs = beforeLoop K (currentRequest (gridRequest sb)) cd
                     @ afterLoop (currentRequest (gridRequest sb)) cd'"
    using update(10) update(9) same(1) by (simp add: afterLoop_time)
  from stepLoop_idle [OF assms(1)] no_step none wt cd evs update(1) update(2)
  show ?thesis by simp
qed

text \<open>
  A cycle of 1/30 s at speed 0, and a cycle of 0 s at speed 1: no step is executed, the
  water table is as before, and the context is the one the bathymetry update produced.
\<close>

theorem display_no_budget_no_steps_witness:
  "budget exampleKernels (1 / 30) (waterSpeed (exampleSandbox\<lparr>waterSpeed := 0\<rparr>))
     \<le> epsilon exampleKernels
   \<and> executedSteps (snd (snd (display exampleKernels 1 (1 / 30)
        (exampleSandbox\<lparr>waterSpeed := 0\<rparr>) exampleContext))) = []
   \<and> waterTable (fst (display exampleKernels 1 (1 / 30)
        (exampleSandbox\<lparr>waterSpeed := 0\<rparr>) exampleContext)) = Some exampleWaterTable
   \<and> fst (snd (display exampleKernels 1 (1 / 30)
        (exampleSandbox\<lparr>waterSpeed := 0\<rparr>) exampleContext))
       = (updateBathymetry exampleKernels exampleContext)\<lparr>waterTableTime := 1\<rparr>
   \<and> budget exampleKernels 0 (waterSpeed exampleSandbox) \<le> epsilon exampleKernels
   \<and> executedSteps (snd (snd (display exampleKernels 1 0 exampleSandbox exampleContext))) = []"
proof -
  have b1: "budget exampleKernels (1 / 30) (waterSpeed (exampleSandbox\<lparr>waterSpeed := 0\<rparr>))
              \<le> epsilon exampleKernels"
    by (simp add: example_arithmetic)
  have b2: "budget exampleKernels 0 (waterSpeed exampleSandbox) \<le> epsilon exampleKernels"
    by (simp add: example_arithmetic)
  have wt: "waterTable (exampleSandbox\<lparr>waterSpeed := 0\<rparr>) = Some exampleWaterTable"
    by (simp add: exampleSandbox_def)
  have time: "waterTableTime exampleContext \<noteq> 1"
    by (simp add: exampleContext_def newDataItem_def)
  note r1 = display_no_budget_no_steps
      [OF b1 display_result [of exampleKernels 1 "1 / 30" "exampleSandbox\<lparr>waterSpeed := 0\<rparr>"
         exampleContext]]
  note r2 = display_no_budget_no_steps
      [OF b2 display_result [of exampleKernels 1 0 exampleSandbox exampleContext]]
  note steps1 = r1 [THEN conjunct2, THEN conjunct1]
  note steps2 = r2 [THEN conjunct2, THEN conjunct1]
  have wt1: "waterTable (fst (display exampleKernels 1 (1 / 30)
        (exampleSandbox\<lparr>waterSpeed := 0\<rparr>) exampleContext)) = Some exampleWaterTable"
    using r1 [THEN conjunct2, THEN conjunct2, THEN conjunct2, THEN conjunct1] wt
    by (rule trans)
  have cd1: "fst (snd (display exampleKernels 1 (1 / 30)
        (exampleSandbox\<lparr>waterSpeed := 0\<rparr>) exampleContext))
       = (updateBathymetry exampleKernels exampleContext)\<lparr>waterTableTime := 1\<rparr>"
    using r1 [THEN conjunct2, THEN conjunct2, THEN conjunct2, THEN conjunct2] wt time
    by simp
  from b1 steps1 wt1 cd1 b2 steps2 show ?thesis by blast
qed

text \<open>
  C4 as stated fails: a cycle of 1/30 s at speed 0 has the budget 0 and executes no
  step, and yet the grids do not remain unchanged, because the bathymetry update runs
  before the loop: the bathymetry grid \<open>[0, 0]\<close> of the context becomes \<open>[5, 6]\<close>.
\<close>

theorem display_no_budget_updates_bathymetry_counterexample:
  "budget exampleKernels (1 / 30) (waterSpeed (exampleSandbox\<lparr>waterSpeed := 0\<rparr>))
     \<le> epsilon exampleKernels
   \<and> bathymetryTexture exampleContext = [0, 0]
   \<and> bathymetryTexture (fst (snd (display exampleKernels 1 (1 / 30)
        (exampleSandbox\<lparr>waterSpeed := 0\<rparr>) exampleContext))) = [5, 6]"
proof -
  have "budget exampleKernels (1 / 30) (waterSpeed (exampleSandbox\<lparr>waterSpeed := 0\<rparr>))
          \<le> epsilon exampleKernels"
    by (simp add: example_arithmetic)
  moreover have "bathymetryTexture exampleContext = [0, 0]"
    by (simp add: exampleContext_def newDataItem_def)
  moreover have "bathymetryTexture (fst (snd (display exampleKernels 1 (1 / 30)
        (exampleSandbox\<lparr>waterSpeed := 0\<rparr>) exampleContext))) = [5, 6]"
    by (simp add: idle_cycle)
  ultimately show ?thesis by blast
qed

text \<open>
  C9. After a display cycle at an application time, every further invocation of
  \<open>display\<close> at the same application time with the same context is a no-op for the
  simulation: the sandbox and the context stay as they are and nothing happens, whatever
  frame time is passed. So the simulation state of a context is advanced at most once per
  application frame.
\<close>

theorem display_once_per_frame:
  assumes "display K t ft sb cd = (sb1, cd1, evs1)"
  shows "display K t ft' sb1 cd1 = (sb1, cd1, [])"
  using assms
proof (cases rule: display_cases)
  case idle
  then show ?thesis by (simp add: display_idle)
next
  case (update wt n rest wt2 cd2 steps)
  then have "waterTableTime cd1 = t" by simp
  then show ?thesis by (simp add: display_idle)
qed

text \<open>
  The first invocation at time 1 executes two steps; the second one at time 1 does
  nothing.
\<close>

theorem display_once_per_frame_witness:
  "executedSteps (snd (snd (display exampleKernels 1 (1 / 30) requestingSandbox exampleContext)))
     = [1 / 60, 1 / 60]
   \<and> display exampleKernels 1 (1 / 30)
        (fst (display exampleKernels 1 (1 / 30) requestingSandbox exampleContext))
        (fst (snd (display exampleKernels 1 (1 / 30) requestingSandbox exampleContext)))
     = (fst (display exampleKernels 1 (1 / 30) requestingSandbox exampleContext),
        fst (snd (display exampleKernels 1 (1 / 30) requestingSandbox exampleContext)), [])"
proof -
  have "executedSteps (snd (snd (display exampleKernels 1 (1 / 30) requestingSandbox
          exampleContext))) = [1 / 60, 1 / 60]"
    by (simp add: example_cycle)
  with display_once_per_frame
      [OF display_result [of exampleKernels 1 "1 / 30" requestingSandbox exampleContext],
       of "1 / 30"]
  show ?thesis by blast
qed

section \<open>The raw depth frame dispatcher\<close>

text \<open>
  C10. While updates are paused, the dispatcher does not pass an incoming raw depth
  frame to the frame filter, and still passes it to the hand extractor (when there is
  one).
\<close>

theorem rawDepthFrameDispatcher_paused:
  assumes "pauseUpdates sb"
  shows "frameFilter (rawDepthFrameDispatcher frameBuffer sb) = frameFilter sb
       \<and> handExtractor (rawDepthFrameDispatcher frameBuffer sb)
           = map_option (receiveRawFrame frameBuffer) (handExtractor sb)"
  using assms by (simp add: rawDepthFrameDispatcher_def split: option.splits)

text \<open>A paused sandbox: the frame reaches the hand extractor only.\<close>

theorem rawDepthFrameDispatcher_paused_witness:
  "pauseUpdates (exampleSandbox\<lparr>pauseUpdates := True\<rparr>)
   \<and> frameFilter (rawDepthFrameDispatcher [1, 2, 3] (exampleSandbox\<lparr>pauseUpdates := True\<rparr>))
       = Some []
   \<and> handExtractor (rawDepthFrameDispatcher [1, 2, 3] (exampleSandbox\<lparr>pauseUpdates := True\<rparr>))
       = Some [[1, 2, 3]]"
proof -
  have paused: "pauseUpdates (exampleSandbox\<lparr>pauseUpdates := True\<rparr>)" by simp
  from rawDepthFrameDispatcher_paused [OF paused, of "[1, 2, 3]"] paused
  show ?thesis by (simp add: exampleSandbox_def receiveRawFrame_def)
qed

section \<open>Hysteresis\<close>

text \<open>
  C8. For a cell with a published value and every sequence of converged candidate
  values that all lie within half the hysteresis width of that published value, every
  value published for the cell along the sequence is the previously published value.
\<close>

theorem publish_hysteresis_stable:
  assumes "\<forall>c \<in> set candidates. \<bar>c - published\<bar> \<le> hysteresis / 2"
  shows "\<forall>v \<in> set (publishedValues hysteresis published candidates). v = published"
  using assms by (induction candidates) (auto simp: publish_def)

text \<open>Hysteresis 0.1 and published value 50: the candidates 50.05, 49.95 and 50 change nothing.\<close>

theorem publish_hysteresis_stable_witness:
  "\<bar>1001 / 20 - 50 :: real\<bar> \<le> (1 / 10) / 2 \<and> \<bar>999 / 20 - 50 :: real\<bar> \<le> (1 / 10) / 2
   \<and> \<bar>50 - 50 :: real\<bar> \<le> (1 / 10) / 2
   \<and> publishedValues (1 / 10) 50 [1001 / 20, 999 / 20, 50] = [50, 50, 50]"
proof -
  have within: "\<forall>c \<in> set [1001 / 20, 999 / 20, 50 :: real]. \<bar>c - 50\<bar> \<le> (1 / 10) / 2"
    by simp
  from publish_hysteresis_stable [OF within] within
  show ?thesis by (simp add: publish_def)
qed

section \<open>Control pipe commands\<close>

text \<open>
  C7. For every \<open>waterAttenuation x\<close> command with exactly one argument and a water
  table present, the attenuation factor of the water table is set to \<open>1 - x\<close>, where
  \<open>x\<close> is the value \<open>atof\<close> gives the argument (for every \<open>x\<close>, in particular in the range
  0 to 1). The attenuation slider of the dialog stores \<open>1 - value\<close> in the same way.
\<close>

theorem waterAttenuation_stored:
  assumes "isToken (tokens ! 0) ''waterAttenuation''" and "length tokens = 2"
    and "waterTable sb = Some wt"
  shows "(\<exists>sb'. parseCommand E sb tokens = Some sb'
            \<and> map_option attenuation (waterTable sb') = Some (1 - atof E (tokens ! 1)))
       \<and> (\<exists>sb'. waterAttenuationSliderCallback v sb = Some sb'
            \<and> map_option attenuation (waterTable sb') = Some (1 - v))"
proof -
  from assms(1) have "map tolower (tokens ! 0) = ''waterattenuation''"
    unfolding isToken_def lower_names by simp
  with assms(2,3) show ?thesis
    unfolding parseCommand_def isToken_def lower_names waterAttenuationSliderCallback_def
    by (simp add: setAttenuation_def split del: if_split)
qed

text \<open>The command \<open>waterAttenuation 0.25\<close> sets the attenuation factor to 0.75.\<close>

theorem waterAttenuation_stored_witness:
  "isToken ([''waterAttenuation'', ''0.25''] ! 0) ''waterAttenuation''
   \<and> length [''waterAttenuation'', ''0.25''] = 2
   \<and> waterTable exampleSandbox = Some exampleWaterTable
   \<and> (\<exists>sb'. parseCommand decimalLibrary exampleSandbox [''waterAttenuation'', ''0.25'']
               = Some sb'
          \<and> map_option attenuation (waterTable sb') = Some (3 / 4))"
proof -
  have h1: "isToken ([''waterAttenuation'', ''0.25''] ! 0) ''waterAttenuation''"
    by (simp add: isToken_def)
  have h2: "length [''waterAttenuation'', ''0.25''] = 2" by simp
  have h3: "waterTable exampleSandbox = Some exampleWaterTable"
    by (simp add: exampleSandbox_def)
  have arg: "1 - atof decimalLibrary ([''waterAttenuation'', ''0.25''] ! 1) = 3 / 4"
    by (simp add: decimalLibrary_def decimalAtof_def unsignedDecimal_def isdigit_def
        isspace_def)
  from waterAttenuation_stored [OF h1 h2 h3, of decimalLibrary] h1 h2 h3
  show ?thesis unfolding arg by blast
qed




text \<open>
  C6. A line with a malformed argument count or an unrecognized command name is
  reported and skipped, and no control pipe input is ever fatal. The code does not keep
  the last part. A sandbox started without water simulation (\<open>-ws 0.0 0\<close>) creates no
  water control dialog, and the constructor's initialiser list sets \<open>snowLineSlider\<close>,
  \<open>waterSpeedSlider\<close>, \<open>waterMaxStepsSlider\<close> and \<open>waterAttenuationSlider\<close> to null but omits
  \<open>snowMeltSlider\<close>, \<open>waterRoughnessSlider\<close> and \<open>waterAbsorptionSlider\<close>. The well-formed
  lines \<open>snowMelt 1\<close>, \<open>waterRoughness 0.05\<close> and \<open>waterAbsorption 0.5\<close> then test and call
  through an indeterminate pointer, which is undefined behaviour; the sibling command
  \<open>snowLine 1\<close>, whose slider pointer is initialised, is processed and changes nothing.
\<close>

theorem frame_uninitialised_slider:
  "frame decimalLibrary sandboxWithoutWaterTable ''snowMelt 1'' = None
   \<and> frame decimalLibrary sandboxWithoutWaterTable ''waterRoughness 0.05'' = None
   \<and> frame decimalLibrary sandboxWithoutWaterTable ''waterAbsorption 0.5'' = None
   \<and> frame decimalLibrary sandboxWithoutWaterTable ''snowLine 1''
       = Some sandboxWithoutWaterTable"
proof -
  have tokens: "tokenizeLine ''snowMelt 1'' = ([''snowMelt'', ''1''], [])"
    "tokenizeLine ''waterRoughness 0.05'' = ([''waterRoughness'', ''0.05''], [])"
    "tokenizeLine ''waterAbsorption 0.5'' = ([''waterAbsorption'', ''0.5''], [])"
    "tokenizeLine ''snowLine 1'' = ([''snowLine'', ''1''], [])"
    by (simp_all add: tokenizeLine_def extractTokens.simps isspace_def)
  have command:
    "parseCommand decimalLibrary sandboxWithoutWaterTable [''snowMelt'', ''1''] = None"
    "parseCommand decimalLibrary sandboxWithoutWaterTable [''waterRoughness'', ''0.05''] = None"
    "parseCommand decimalLibrary sandboxWithoutWaterTable [''waterAbsorption'', ''0.5''] = None"
    "parseCommand decimalLibrary sandboxWithoutWaterTable [''snowLine'', ''1'']
       = Some sandboxWithoutWaterTable"
    by (simp_all add: parseCommand_def isToken_def tolower_def setIfPresent_def
        sandboxWithoutWaterTable_def split del: if_split)
  have "frame decimalLibrary sandboxWithoutWaterTable ''snowMelt 1'' = None"
    by (simp add: frame_def commandLoop.simps [of _ _ "''snowMelt 1''"] tokens command)
  moreover have "frame decimalLibrary sandboxWithoutWaterTable ''waterRoughness 0.05'' = None"
    by (simp add: frame_def commandLoop.simps [of _ _ "''waterRoughness 0.05''"] tokens
        command)
  moreover have "frame decimalLibrary sandboxWithoutWaterTable ''waterAbsorption 0.5'' = None"
    by (simp add: frame_def commandLoop.simps [of _ _ "''waterAbsorption 0.5''"] tokens
        command)
  moreover have "frame decimalLibrary sandboxWithoutWaterTable ''snowLine 1''
                   = Some sandboxWithoutWaterTable"
    by (simp add: frame_def commandLoop.simps [of _ _ "''snowLine 1''"]
        commandLoop.simps [of _ _ "[]"] tokens command)
  ultimately show ?thesis by (intro conjI)
qed

text \<open>
  What the line loop does keep. A line whose first token is no command name, or whose
  number of tokens is not accepted for its command, adds one message to the error stream
  and changes nothing else, in every state; the lines after it are processed as if that
  line had only left its message. From a state in which the water control dialog exists,
  every buffer is processed to the end (the calls into the surface renderers and colour
  maps are recorded, not run).
\<close>

lemma malformed_lines_skipped:
  "(malformed tokens \<longrightarrow> (\<exists>message. parseCommand E sb tokens = Some (complain message sb)))
   \<and> (CHR 0x0A \<notin> set line \<and> malformed (fst (tokenizeLine line)) \<longrightarrow>
        (\<exists>message. commandLoop E sb (line @ CHR 0x0A # rest)
                      = commandLoop E (complain message sb) rest))
   \<and> (dialogCreated sb \<longrightarrow> (\<exists>sb'. frame E sb commandBuffer = Some sb'))"
proof (intro conjI impI)
  show skip: "\<exists>message. parseCommand E sb tokens = Some (complain message sb)"
    if "malformed tokens" for tokens
  proof (cases "recognized (tokens ! 0)")
    case True
    with that have "\<not> argumentCountOk (tokens ! 0) (length tokens)"
      by (simp add: malformed_def)
    from parseCommand_wrong_count [OF True this, of sb E] show ?thesis
      by (simp add: complaint_def)
  next
    case False
    then show ?thesis by (auto simp: parseCommand_unrecognized)
  qed
  show "\<exists>message. commandLoop E sb (line @ CHR 0x0A # rest)
                      = commandLoop E (complain message sb) rest"
    if a: "CHR 0x0A \<notin> set line \<and> malformed (fst (tokenizeLine line))"
  proof -
    from a have tl: "tokenizeLine (line @ CHR 0x0A # rest) = (fst (tokenizeLine line), rest)"
      by (simp add: tokenizeLine_newline)
    from a have ne: "fst (tokenizeLine line) \<noteq> []"
      by (simp add: malformed_def)
    from skip a obtain message where
      "parseCommand E sb (fst (tokenizeLine line)) = Some (complain message sb)"
      by blast
    with tl ne have "commandLoop E sb (line @ CHR 0x0A # rest)
                       = commandLoop E (complain message sb) rest"
      by (simp add: commandLoop.simps [of E sb "line @ CHR 0x0A # rest"])
    then show ?thesis by blast
  qed
  show "\<exists>sb'. frame E sb commandBuffer = Some sb'" if "dialogCreated sb"
    using commandLoop_survives [OF that, of E "takeWhile (\<lambda>c. c \<noteq> CHR 0x00) commandBuffer"]
    by (auto simp: frame_def survives_def)
qed

lemma example_buffer:
  "frame decimalLibrary exampleSandbox ''waterSpeed\<newline>foo 1\<newline>rainStrength 0.5\<newline>''
     = Some (exampleSandbox\<lparr>rainStrength := 1 / 2,
          cerr := [''Wrong number of arguments for waterSpeed control pipe command'',
                   ''Unrecognized control pipe command foo'']\<rparr>)"
  by (simp add: frame_def commandLoop.simps tokenizeLine_def extractTokens.simps isspace_def
      parseCommand_def isToken_def tolower_def wrongArguments_def complain_def
      decimalLibrary_def exact_def decimalAtof_def unsignedDecimal_def isdigit_def
      exampleSandbox_def split del: if_split)

text \<open>
  A buffer of three lines: \<open>waterSpeed\<close> without argument, the unknown command \<open>foo 1\<close>
  and \<open>rainStrength 0.5\<close>. The first two lines leave one message each, the third sets
  the rain strength.
\<close>

lemma malformed_lines_example:
  "malformed [''waterSpeed''] \<and> malformed [''foo'', ''1''] \<and> dialogCreated exampleSandbox
   \<and> CHR 0x0A \<notin> set ''waterSpeed'' \<and> fst (tokenizeLine ''waterSpeed'') = [''waterSpeed'']
   \<and> (\<exists>message. parseCommand decimalLibrary exampleSandbox [''waterSpeed'']
                   = Some (complain message exampleSandbox))
   \<and> (\<exists>message. parseCommand decimalLibrary exampleSandbox [''foo'', ''1'']
                   = Some (complain message exampleSandbox))
   \<and> (\<exists>message. commandLoop decimalLibrary exampleSandbox
                     (''waterSpeed'' @ CHR 0x0A # ''rainStrength 0.5'')
                   = commandLoop decimalLibrary (complain message exampleSandbox)
                       ''rainStrength 0.5'')
   \<and> (\<exists>sb'. frame decimalLibrary exampleSandbox
                ''waterSpeed\<newline>foo 1\<newline>rainStrength 0.5\<newline>'' = Some sb')
   \<and> frame decimalLibrary exampleSandbox ''waterSpeed\<newline>foo 1\<newline>rainStrength 0.5\<newline>''
       = Some (exampleSandbox\<lparr>rainStrength := 1 / 2,
            cerr := [''Wrong number of arguments for waterSpeed control pipe command'',
                     ''Unrecognized control pipe command foo'']\<rparr>)"
proof -
  have m1: "malformed [''waterSpeed'']"
    by (simp add: malformed_def argumentCountOk_def isToken_def tolower_def)
  have m2: "malformed [''foo'', ''1'']"
    by (simp add: malformed_def recognized_def commandNames_def isToken_def tolower_def)
  have d: "dialogCreated exampleSandbox"
    by (simp add: dialogCreated_def exampleSandbox_def)
  have n: "CHR 0x0A \<notin> set ''waterSpeed''" by simp
  have t: "fst (tokenizeLine ''waterSpeed'') = [''waterSpeed'']"
    by (simp add: tokenizeLine_def extractTokens.simps isspace_def)
  from malformed_lines_skipped [of "[''waterSpeed'']" decimalLibrary exampleSandbox] m1
  have c1: "\<exists>message. parseCommand decimalLibrary exampleSandbox [''waterSpeed'']
                   = Some (complain message exampleSandbox)"
    by blast
  from malformed_lines_skipped [of "[''foo'', ''1'']" decimalLibrary exampleSandbox] m2
  have c2: "\<exists>message. parseCommand decimalLibrary exampleSandbox [''foo'', ''1'']
                   = Some (complain message exampleSandbox)"
    by blast
  from malformed_lines_skipped
         [of _ decimalLibrary exampleSandbox "''waterSpeed''" "''rainStrength 0.5''"] n m1 t
  have c3: "\<exists>message. commandLoop decimalLibrary exampleSandbox
                     (''waterSpeed'' @ CHR 0x0A # ''rainStrength 0.5'')
                   = commandLoop decimalLibrary (complain message exampleSandbox)
                       ''rainStrength 0.5''"
    by simp
  from malformed_lines_skipped
         [of _ decimalLibrary exampleSandbox _ _
            "''waterSpeed\<newline>foo 1\<newline>rainStrength 0.5\<newline>''"] d
  have c4: "\<exists>sb'. frame decimalLibrary exampleSandbox
                ''waterSpeed\<newline>foo 1\<newline>rainStrength 0.5\<newline>'' = Some sb'"
    by blast
  from m1 m2 d n t c1 c2 c3 c4 example_buffer show ?thesis by blast
qed

end
